theory Spec2Isabelle
  imports Complex_Main
begin

section \<open>JavaScript values used by the code\<close>

text \<open>
  A JavaScript number is modelled by a rational (the finite values) or by \<open>NaN\<close>.
  A \<open>Date\<close> that the library returns, and the current time \<open>new Date()\<close>, is
  modelled by its time value, the milliseconds that \<open>getTime()\<close> returns.  A property
  that may be \<open>undefined\<close> or \<open>null\<close> is an \<open>option\<close>, with \<open>None\<close> for the
  missing value.
\<close>

datatype number = Num rat | NaN

type_synonym date = int

text \<open>
  \<open>new Date(t)\<close> for a computed time value \<open>t\<close>: a time value more than
  8640000000000000 milliseconds from the epoch is out of the range of \<open>Date\<close>, and
  the object is then the invalid date.
\<close>

datatype date_object = Date int | Invalid_Date

definition new_Date :: "int \<Rightarrow> date_object" where
  "new_Date t =
     (if - 8640000000000000 \<le> t \<and> t \<le> 8640000000000000 then Date t else Invalid_Date)"

datatype error = Error (message: string)

text \<open>Truthiness, as the operator \<open>||\<close> and the statement \<open>if (x)\<close> test it.\<close>

fun truthy_number :: "number \<Rightarrow> bool" where
  "truthy_number (Num r) = (r \<noteq> 0)"
| "truthy_number NaN = False"

definition truthy_string :: "string \<Rightarrow> bool" where
  "truthy_string s = (s \<noteq> [])"

definition truthy_boolean :: "bool \<Rightarrow> bool" where
  "truthy_boolean b = b"

text \<open>Objects (a \<open>Date\<close>, an array, a record) are always truthy.\<close>

definition truthy_object :: "'a \<Rightarrow> bool" where
  "truthy_object x = True"

text \<open>\<open>x || d\<close>: the left operand when it is truthy, the right one otherwise.\<close>

definition js_or :: "('a \<Rightarrow> bool) \<Rightarrow> 'a option \<Rightarrow> 'a \<Rightarrow> 'a" where
  "js_or truthy x d = (case x of None \<Rightarrow> d | Some v \<Rightarrow> if truthy v then v else d)"

text \<open>\<open>x ?? d\<close>: the left operand unless it is \<open>undefined\<close> or \<open>null\<close>.\<close>

definition nullish :: "'a option \<Rightarrow> 'a \<Rightarrow> 'a" where
  "nullish x d = (case x of None \<Rightarrow> d | Some v \<Rightarrow> v)"

text \<open>
  A property key: \<open>obj[k]\<close> converts the key to a string, so that an \<open>undefined\<close> key
  reads the property named \<open>undefined\<close>.
\<close>

definition property_key :: "string option \<Rightarrow> string" where
  "property_key k = (case k of None \<Rightarrow> ''undefined'' | Some s \<Rightarrow> s)"

section \<open>What the client library returns\<close>

text \<open>
  The library's result types are not part of the sources; the records below have the
  properties that \<open>pronote.ts\<close> reads, optional wherever the code guards the read with
  \<open>?.\<close>, \<open>??\<close> or \<open>||\<close>.
\<close>

datatype SessionHandle = SessionHandle nat

record raw_mark =
  m_average :: "number option"
  m_coefficient :: "number option"
  m_comment :: "string option"
  m_date :: "date option"
  m_max :: "number option"
  m_min :: "number option"
  m_scale :: "number option"
  m_value :: "number option"

record raw_subject =
  s_name :: string
  s_grades :: "raw_mark list option"

record raw_gradebook =
  subjects :: "raw_subject list option"

record raw_named =
  n_name :: "string option"

record raw_lesson =
  l_start :: date
  l_classroom :: "string option"
  l_subject :: "raw_named option"
  l_teacher :: "raw_named option"
  l_end :: date
  l_isCancelled :: "bool option"

record raw_attachment =
  a_name :: string
  a_url :: string

record raw_assignment =
  w_description :: "string option"
  w_date :: date
  w_attachments :: "raw_attachment list option"
  w_givenAt :: "date option"
  w_subject :: "raw_named option"
  w_done :: "bool option"

record raw_value =
  v_value :: "number option"

record raw_overview =
  studentAverage :: "raw_value option"
  classAverage :: "raw_value option"

section \<open>The result types of \<open>pronote.ts\<close>\<close>

text \<open>
  \<open>Grades\<close>, \<open>Timetable\<close>, \<open>Homeworks\<close> and \<open>Averages\<close> come from \<open>../types\<close>;
  their fields are those of the object literals the code builds.  A grade and a homework
  are first built without their hash (the argument of \<open>hashGrade\<close> and
  \<open>hashHomework\<close>), then spread into the entry that carries it.
\<close>

record grade_fields =
  g_subject :: string
  g_average :: number
  g_coefficient :: number
  g_comment :: string
  g_date :: date
  g_best :: number
  g_worst :: number
  g_scale :: number
  g_value :: number

record Grade = grade_fields +
  g_hash :: string

type_synonym Grades = "Grade list"

record Lesson =
  t_from :: date
  t_room :: string
  t_subject :: string
  t_teacher :: string
  t_to :: date
  t_absent :: bool
  t_cancelled :: bool

type_synonym Timetable = "Lesson list"

record File =
  f_name :: string
  f_url :: string

record homework_fields =
  h_content :: string
  h_due :: date_object
  h_files :: "File list"
  h_givenAt :: date
  h_subject :: string
  h_done :: bool

record Homework = homework_fields +
  h_hash :: string

type_synonym Homeworks = "Homework list"

record Averages =
  av_value :: number
  av_everyone :: number

section \<open>Configuration and imported helpers\<close>

text \<open>
  \<open>config\<close>, \<open>SubjectNames\<close>, \<open>hashGrade\<close> and \<open>hashHomework\<close> are imported from
  modules outside the sources; they are parameters of the model.  The durations are
  milliseconds.
\<close>

record env =
  refreshEvery :: int
  accountTimeout :: int
  SubjectNames :: "string \<rightharpoonup> string"
  hashGrade :: "grade_fields \<Rightarrow> string"
  hashHomework :: "homework_fields \<Rightarrow> string"

record Account =
  acc_url :: string
  acc_username :: string
  acc_password :: string

text \<open>Deleting cache entry 30 seconds before refresh.\<close>

definition cacheTtl :: "env \<Rightarrow> int" where
  "cacheTtl e = refreshEvery e - 30 * 1000"

section \<open>Caches, timers and calls of the library\<close>

text \<open>
  The module's state is the five maps of \<open>caches\<close>.  The model adds what the code's
  effects act on: the timers that \<open>setTimeout\<close> has registered and that have not fired
  yet, the wall clock, and the list of the calls made to the client library.
\<close>

datatype timer_callback =
    SessionExpiry
  | DeleteSession string
  | DeleteGrades string
  | DeleteTimetable string
  | DeleteHomeworks string
  | DeleteAverages string

record timer =
  due :: int
  callback :: timer_callback

text \<open>
  A call of the library, with the session it is made on.  The period and the interval
  that \<open>getGrades\<close>, \<open>getTimetable\<close>, \<open>getHomeworks\<close> and \<open>getAverages\<close> pass are
  computed from the calendar and are not recorded; \<open>LoginCredentials\<close> records the
  url, the username, the password and the device identifier.
\<close>

datatype lib_call =
    CreateSessionHandle
  | LoginCredentials SessionHandle string string string string
  | Gradebook SessionHandle
  | TimetableFromIntervals SessionHandle
  | AssignmentsFromIntervals SessionHandle
  | GradesOverview SessionHandle

record state =
  caches_sessions :: "string \<rightharpoonup> SessionHandle"
  caches_grades :: "string \<rightharpoonup> Grades"
  caches_timetable :: "string \<rightharpoonup> Timetable"
  caches_homeworks :: "string \<rightharpoonup> Homeworks"
  caches_averages :: "string \<rightharpoonup> Averages"
  timers :: "timer list"
  clock :: int
  lib_calls :: "lib_call list"

definition initial_state :: "int \<Rightarrow> state" where
  "initial_state t0 =
     \<lparr>caches_sessions = Map.empty, caches_grades = Map.empty, caches_timetable = Map.empty,
      caches_homeworks = Map.empty, caches_averages = Map.empty,
      timers = [], clock = t0, lib_calls = []\<rparr>"

text \<open>
  \<open>setTimeout(f, delay)\<close>: the callback is due after the delay, in milliseconds.
  The runtime sets a delay that is below \<open>1\<close> or above \<open>2147483647\<close> to \<open>1\<close>.
  The callback runs when the clock reaches the time it is due.
\<close>

definition timer_delay :: "int \<Rightarrow> int" where
  "timer_delay delay = (if delay < 1 \<or> 2147483647 < delay then 1 else delay)"

definition setTimeout :: "timer_callback \<Rightarrow> int \<Rightarrow> state \<Rightarrow> state" where
  "setTimeout f delay st =
     st\<lparr>timers := timers st @ [\<lparr>due = clock st + timer_delay delay, callback = f\<rparr>]\<rparr>"

definition library :: "lib_call \<Rightarrow> state \<Rightarrow> state" where
  "library c st = st\<lparr>lib_calls := lib_calls st @ [c]\<rparr>"

text \<open>
  An awaited promise settles to \<open>Inl err\<close> when it is rejected and to \<open>Inr v\<close> when it
  is fulfilled; \<open>.catch(() => null)\<close> turns the rejection into \<open>null\<close>.
\<close>

definition catch_null :: "error + 'a \<Rightarrow> 'a option" where
  "catch_null p = (case p of Inl err \<Rightarrow> None | Inr v \<Rightarrow> Some v)"

text \<open>\<open>x?.f\<close>: \<open>undefined\<close> when \<open>x\<close> is missing.\<close>

definition optional_chain :: "'a option \<Rightarrow> ('a \<Rightarrow> 'b option) \<Rightarrow> 'b option" where
  "optional_chain x f = (case x of None \<Rightarrow> None | Some v \<Rightarrow> f v)"

section \<open>\<open>getSession\<close>\<close>

text \<open>
  Each function is asynchronous and has one \<open>await\<close>, on the call of the library.
  The model splits it there.  \<open>f_start\<close> is the body up to the \<open>await\<close>: it looks
  the cache up and either finishes with the cached value or calls the library.
  \<open>f_resume\<close> is the rest of the body, which runs when the library's promise has
  settled, in the state of that moment.  \<open>f\<close> is a whole call during which nothing
  else happens: its resumption runs in the state that its start has left.  Two calls
  overlap when the second one starts before the first one resumes.

  The arguments are those of the source, followed by what the outside world answers
  during the call: for \<open>getSession\<close> the handle that \<open>createSessionHandle()\<close>
  creates, the random suffix of the device identifier and the outcome of
  \<open>loginCredentials\<close>; for the other functions the outcome of the library call.  The
  result is \<open>Inl err\<close> when the returned promise is rejected.
\<close>

definition getSession_start ::
  "state \<Rightarrow> Account \<Rightarrow> SessionHandle \<Rightarrow> string \<Rightarrow> SessionHandle option \<times> state" where
  "getSession_start st account created suffix =
     (case caches_sessions st (acc_username account) of
        Some cached \<Rightarrow> (Some cached, st)
      | None \<Rightarrow>
          (let st1 = library CreateSessionHandle st;
               session = created;
               st2 = library (LoginCredentials session (acc_url account) (acc_username account)
                        (acc_password account) (''smartpronote-'' @ suffix)) st1
           in (None, st2)))"

definition getSession_resume ::
  "env \<Rightarrow> state \<Rightarrow> Account \<Rightarrow> SessionHandle \<Rightarrow> error + unit
     \<Rightarrow> (error + SessionHandle) \<times> state" where
  "getSession_resume e st account session login =
     (case login of
        Inl err \<Rightarrow> (Inl err, st)
      | Inr _ \<Rightarrow>
          (let st1 = setTimeout SessionExpiry (accountTimeout e) st;
               st2 = st1\<lparr>caches_sessions :=
                       (caches_sessions st1)(acc_username account \<mapsto> session)\<rparr>;
               st3 = setTimeout (DeleteSession (acc_username account))
                       (accountTimeout e - 2 * 60 * 1000) st2
           in (Inr session, st3)))"

definition getSession ::
  "env \<Rightarrow> state \<Rightarrow> Account \<Rightarrow> SessionHandle \<Rightarrow> string \<Rightarrow> error + unit
     \<Rightarrow> (error + SessionHandle) \<times> state" where
  "getSession e st account created suffix login =
     (case getSession_start st account created suffix of
        (Some cached, st1) \<Rightarrow> (Inr cached, st1)
      | (None, st1) \<Rightarrow> getSession_resume e st1 account created login)"

section \<open>\<open>getGrades\<close>\<close>

text \<open>The inner loop, over the marks of one subject; \<open>push\<close> appends to \<open>grades\<close>.\<close>

fun marks_loop :: "env \<Rightarrow> date \<Rightarrow> raw_subject \<Rightarrow> raw_mark list \<Rightarrow> Grades \<Rightarrow> Grades" where
  "marks_loop e now subject [] grades = grades"
| "marks_loop e now subject (mark # marks) grades =
     (let grade =
            \<lparr>g_subject = nullish (SubjectNames e (s_name subject)) (s_name subject),
             g_average = js_or truthy_number (m_average mark) (Num 0),
             g_coefficient = js_or truthy_number (m_coefficient mark) (Num 1),
             g_comment = js_or truthy_string (m_comment mark) '''',
             g_date = js_or truthy_object (m_date mark) now,
             g_best = js_or truthy_number (m_max mark) (Num 20),
             g_worst = js_or truthy_number (m_min mark) (Num 0),
             g_scale = js_or truthy_number (m_scale mark) (Num 20),
             g_value = js_or truthy_number (m_value mark) (Num 0)\<rparr>
      in marks_loop e now subject marks
           (grades @ [grade_fields.extend grade (Grade.fields (hashGrade e grade))]))"

text \<open>The outer loop, over the subjects.\<close>

fun subjects_loop :: "env \<Rightarrow> date \<Rightarrow> raw_subject list \<Rightarrow> Grades \<Rightarrow> Grades" where
  "subjects_loop e now [] grades = grades"
| "subjects_loop e now (subject # rest) grades =
     subjects_loop e now rest (marks_loop e now subject (nullish (s_grades subject) []) grades)"

definition getGrades_start ::
  "state \<Rightarrow> string \<Rightarrow> SessionHandle \<Rightarrow> Grades option \<times> state" where
  "getGrades_start st username session =
     (case caches_grades st username of
        Some cached \<Rightarrow> (Some cached, st)
      | None \<Rightarrow> (None, library (Gradebook session) st))"

definition getGrades_resume ::
  "env \<Rightarrow> state \<Rightarrow> string \<Rightarrow> error + raw_gradebook \<Rightarrow> (error + Grades) \<times> state" where
  "getGrades_resume e st username response =
     (let raw = catch_null response;
          grades = subjects_loop e (clock st) (nullish (optional_chain raw subjects) []) [];
          st1 = (case raw of
                   None \<Rightarrow> st
                 | Some _ \<Rightarrow>
                     setTimeout (DeleteGrades username) (cacheTtl e)
                       (st\<lparr>caches_grades := (caches_grades st)(username \<mapsto> grades)\<rparr>))
      in (Inr grades, st1))"

definition getGrades ::
  "env \<Rightarrow> state \<Rightarrow> string \<Rightarrow> SessionHandle \<Rightarrow> error + raw_gradebook
     \<Rightarrow> (error + Grades) \<times> state" where
  "getGrades e st username session response =
     (case getGrades_start st username session of
        (Some cached, st1) \<Rightarrow> (Inr cached, st1)
      | (None, st1) \<Rightarrow> getGrades_resume e st1 username response)"

section \<open>\<open>getTimetable\<close>\<close>

definition lesson_entry :: "env \<Rightarrow> raw_lesson \<Rightarrow> Lesson" where
  "lesson_entry e v =
     \<lparr>t_from = l_start v,
      t_room = js_or truthy_string (l_classroom v) '''',
      t_subject = nullish (SubjectNames e (property_key (optional_chain (l_subject v) n_name)))
                    (nullish (optional_chain (l_subject v) n_name) ''''),
      t_teacher = js_or truthy_string (optional_chain (l_teacher v) n_name) '''',
      t_to = l_end v,
      t_absent = js_or truthy_boolean (l_isCancelled v) False,
      t_cancelled = js_or truthy_boolean (l_isCancelled v) False\<rparr>"

definition getTimetable_start ::
  "state \<Rightarrow> string \<Rightarrow> SessionHandle \<Rightarrow> Timetable option \<times> state" where
  "getTimetable_start st username session =
     (case caches_timetable st username of
        Some cached \<Rightarrow> (Some cached, st)
      | None \<Rightarrow> (None, library (TimetableFromIntervals session) st))"

definition getTimetable_resume ::
  "env \<Rightarrow> state \<Rightarrow> string \<Rightarrow> error + raw_lesson list \<Rightarrow> (error + Timetable) \<times> state" where
  "getTimetable_resume e st username response =
     (let raw = catch_null response;
          timetable = nullish (map_option (map (lesson_entry e)) raw) [];
          st1 = (case raw of
                   None \<Rightarrow> st
                 | Some _ \<Rightarrow>
                     setTimeout (DeleteTimetable username) (cacheTtl e)
                       (st\<lparr>caches_timetable := (caches_timetable st)(username \<mapsto> timetable)\<rparr>))
      in (Inr timetable, st1))"

definition getTimetable ::
  "env \<Rightarrow> state \<Rightarrow> string \<Rightarrow> SessionHandle \<Rightarrow> error + raw_lesson list
     \<Rightarrow> (error + Timetable) \<times> state" where
  "getTimetable e st username session response =
     (case getTimetable_start st username session of
        (Some cached, st1) \<Rightarrow> (Inr cached, st1)
      | (None, st1) \<Rightarrow> getTimetable_resume e st1 username response)"

section \<open>\<open>getHomeworks\<close>\<close>

definition homework_entry :: "env \<Rightarrow> date \<Rightarrow> raw_assignment \<Rightarrow> Homework" where
  "homework_entry e now v =
     (let homework =
            \<lparr>h_content = js_or truthy_string (w_description v) '''',
             h_due = new_Date (w_date v + 3 * 60 * 60 * 1000),
             h_files = js_or truthy_object
                         (map_option (map (\<lambda>f. \<lparr>f_name = a_name f, f_url = a_url f\<rparr>))
                            (w_attachments v)) [],
             h_givenAt = js_or truthy_object (w_givenAt v) now,
             h_subject = nullish (SubjectNames e (property_key (optional_chain (w_subject v) n_name)))
                           (nullish (optional_chain (w_subject v) n_name) ''''),
             h_done = js_or truthy_boolean (w_done v) False\<rparr>
      in homework_fields.extend homework (Homework.fields (hashHomework e homework)))"

definition getHomeworks_start ::
  "state \<Rightarrow> string \<Rightarrow> SessionHandle \<Rightarrow> Homeworks option \<times> state" where
  "getHomeworks_start st username session =
     (case caches_homeworks st username of
        Some cached \<Rightarrow> (Some cached, st)
      | None \<Rightarrow> (None, library (AssignmentsFromIntervals session) st))"

definition getHomeworks_resume ::
  "env \<Rightarrow> state \<Rightarrow> string \<Rightarrow> error + raw_assignment list \<Rightarrow> (error + Homeworks) \<times> state" where
  "getHomeworks_resume e st username response =
     (let raw = catch_null response;
          homeworks = nullish (map_option (map (homework_entry e (clock st))) raw) [];
          st1 = (case raw of
                   None \<Rightarrow> st
                 | Some _ \<Rightarrow>
                     setTimeout (DeleteHomeworks username) (cacheTtl e)
                       (st\<lparr>caches_homeworks := (caches_homeworks st)(username \<mapsto> homeworks)\<rparr>))
      in (Inr homeworks, st1))"

definition getHomeworks ::
  "env \<Rightarrow> state \<Rightarrow> string \<Rightarrow> SessionHandle \<Rightarrow> error + raw_assignment list
     \<Rightarrow> (error + Homeworks) \<times> state" where
  "getHomeworks e st username session response =
     (case getHomeworks_start st username session of
        (Some cached, st1) \<Rightarrow> (Inr cached, st1)
      | (None, st1) \<Rightarrow> getHomeworks_resume e st1 username response)"

section \<open>\<open>getAverages\<close>\<close>

definition getAverages_start ::
  "state \<Rightarrow> string \<Rightarrow> SessionHandle \<Rightarrow> Averages option \<times> state" where
  "getAverages_start st username session =
     (case caches_averages st username of
        Some cached \<Rightarrow> (Some cached, st)
      | None \<Rightarrow> (None, library (GradesOverview session) st))"

definition getAverages_resume ::
  "env \<Rightarrow> state \<Rightarrow> string \<Rightarrow> error + raw_overview \<Rightarrow> (error + Averages) \<times> state" where
  "getAverages_resume e st username response =
     (let raw = catch_null response;
          averages =
            \<lparr>av_value = nullish (optional_chain (optional_chain raw studentAverage) v_value) (Num 0),
             av_everyone = nullish (optional_chain (optional_chain raw classAverage) v_value) (Num 0)\<rparr>;
          st1 = (case raw of
                   None \<Rightarrow> st
                 | Some _ \<Rightarrow>
                     setTimeout (DeleteAverages username) (cacheTtl e)
                       (st\<lparr>caches_averages := (caches_averages st)(username \<mapsto> averages)\<rparr>))
      in (Inr averages, st1))"

definition getAverages ::
  "env \<Rightarrow> state \<Rightarrow> string \<Rightarrow> SessionHandle \<Rightarrow> error + raw_overview
     \<Rightarrow> (error + Averages) \<times> state" where
  "getAverages e st username session response =
     (case getAverages_start st username session of
        (Some cached, st1) \<Rightarrow> (Inr cached, st1)
      | (None, st1) \<Rightarrow> getAverages_resume e st1 username response)"

section \<open>Timers firing, and sequences of events\<close>

text \<open>What each callback passed to \<open>setTimeout\<close> does when it runs.\<close>

fun fire :: "timer_callback \<Rightarrow> state \<Rightarrow> state" where
  "fire SessionExpiry st = st"
| "fire (DeleteSession u) st = st\<lparr>caches_sessions := (caches_sessions st)(u := None)\<rparr>"
| "fire (DeleteGrades u) st = st\<lparr>caches_grades := (caches_grades st)(u := None)\<rparr>"
| "fire (DeleteTimetable u) st = st\<lparr>caches_timetable := (caches_timetable st)(u := None)\<rparr>"
| "fire (DeleteHomeworks u) st = st\<lparr>caches_homeworks := (caches_homeworks st)(u := None)\<rparr>"
| "fire (DeleteAverages u) st = st\<lparr>caches_averages := (caches_averages st)(u := None)\<rparr>"

text \<open>
  \<open>elapse d\<close>: \<open>d\<close> milliseconds pass during which no function of the module
  runs.  The timers that are due by then run, earliest first and in the order of their
  registration when due together, each at the time it is due.
\<close>

definition elapse :: "nat \<Rightarrow> state \<Rightarrow> state" where
  "elapse d st =
     (let now = clock st + int d;
          ready = sort_key due (filter (\<lambda>t. due t \<le> now) (timers st));
          waiting = filter (\<lambda>t. \<not> due t \<le> now) (timers st)
      in foldl (\<lambda>s t. fire (callback t) s) (st\<lparr>clock := now, timers := waiting\<rparr>) ready)"

text \<open>
  What happens to the module: a whole call of one of its functions; the start of a call
  that will resume later, if it misses its cache; the resumption of such a call; or a
  lapse of time.  The model leaves it open which calls wait: a resumption may come at
  any time, so that the sequences of events include all those of the module.
\<close>

datatype event =
    CallGetSession Account SessionHandle string "error + unit"
  | CallGetGrades string SessionHandle "error + raw_gradebook"
  | CallGetTimetable string SessionHandle "error + raw_lesson list"
  | CallGetHomeworks string SessionHandle "error + raw_assignment list"
  | CallGetAverages string SessionHandle "error + raw_overview"
  | StartGetSession Account SessionHandle string
  | StartGetGrades string SessionHandle
  | StartGetTimetable string SessionHandle
  | StartGetHomeworks string SessionHandle
  | StartGetAverages string SessionHandle
  | ResumeGetSession Account SessionHandle "error + unit"
  | ResumeGetGrades string "error + raw_gradebook"
  | ResumeGetTimetable string "error + raw_lesson list"
  | ResumeGetHomeworks string "error + raw_assignment list"
  | ResumeGetAverages string "error + raw_overview"
  | Elapse nat

fun step :: "env \<Rightarrow> event \<Rightarrow> state \<Rightarrow> state" where
  "step e (CallGetSession account created suffix login) st =
     snd (getSession e st account created suffix login)"
| "step e (CallGetGrades u s response) st = snd (getGrades e st u s response)"
| "step e (CallGetTimetable u s response) st = snd (getTimetable e st u s response)"
| "step e (CallGetHomeworks u s response) st = snd (getHomeworks e st u s response)"
| "step e (CallGetAverages u s response) st = snd (getAverages e st u s response)"
| "step e (StartGetSession account created suffix) st =
     snd (getSession_start st account created suffix)"
| "step e (StartGetGrades u s) st = snd (getGrades_start st u s)"
| "step e (StartGetTimetable u s) st = snd (getTimetable_start st u s)"
| "step e (StartGetHomeworks u s) st = snd (getHomeworks_start st u s)"
| "step e (StartGetAverages u s) st = snd (getAverages_start st u s)"
| "step e (ResumeGetSession account session login) st =
     snd (getSession_resume e st account session login)"
| "step e (ResumeGetGrades u response) st = snd (getGrades_resume e st u response)"
| "step e (ResumeGetTimetable u response) st = snd (getTimetable_resume e st u response)"
| "step e (ResumeGetHomeworks u response) st = snd (getHomeworks_resume e st u response)"
| "step e (ResumeGetAverages u response) st = snd (getAverages_resume e st u response)"
| "step e (Elapse d) st = elapse d st"

fun run :: "env \<Rightarrow> event list \<Rightarrow> state \<Rightarrow> state" where
  "run e [] st = st"
| "run e (ev # evs) st = run e evs (step e ev st)"

text \<open>The states of the module: it is loaded with empty caches, then events happen.\<close>

inductive reachable :: "env \<Rightarrow> state \<Rightarrow> bool" for e :: env where
  loaded: "reachable e (initial_state t0)"
| after: "reachable e st \<Longrightarrow> reachable e (step e ev st)"

text \<open>
  \<open>holds f st\<close>: the entry that the callback \<open>f\<close> deletes is in its cache.
  \<open>same_entry f st st'\<close>: that entry is the same in both states.
  \<open>pending f st\<close>: the times at which the registered timers with callback \<open>f\<close> are due.
\<close>

fun holds :: "timer_callback \<Rightarrow> state \<Rightarrow> bool" where
  "holds SessionExpiry st = False"
| "holds (DeleteSession u) st = (caches_sessions st u \<noteq> None)"
| "holds (DeleteGrades u) st = (caches_grades st u \<noteq> None)"
| "holds (DeleteTimetable u) st = (caches_timetable st u \<noteq> None)"
| "holds (DeleteHomeworks u) st = (caches_homeworks st u \<noteq> None)"
| "holds (DeleteAverages u) st = (caches_averages st u \<noteq> None)"

fun same_entry :: "timer_callback \<Rightarrow> state \<Rightarrow> state \<Rightarrow> bool" where
  "same_entry SessionExpiry st st' = True"
| "same_entry (DeleteSession u) st st' = (caches_sessions st' u = caches_sessions st u)"
| "same_entry (DeleteGrades u) st st' = (caches_grades st' u = caches_grades st u)"
| "same_entry (DeleteTimetable u) st st' = (caches_timetable st' u = caches_timetable st u)"
| "same_entry (DeleteHomeworks u) st st' = (caches_homeworks st' u = caches_homeworks st u)"
| "same_entry (DeleteAverages u) st st' = (caches_averages st' u = caches_averages st u)"

definition pending :: "timer_callback \<Rightarrow> state \<Rightarrow> int list" where
  "pending f st = map due (filter (\<lambda>t. callback t = f) (timers st))"

text \<open>
  \<open>inserts ev\<close>: the callback of the entry that the resumption \<open>ev\<close> of a call puts
  into its cache.  A whole call inserts an entry only after it has missed the cache; a
  resumption inserts its entry whatever the cache holds by then.
\<close>

fun inserts :: "event \<Rightarrow> timer_callback option" where
  "inserts (ResumeGetSession account session (Inr _)) = Some (DeleteSession (acc_username account))"
| "inserts (ResumeGetGrades u (Inr _)) = Some (DeleteGrades u)"
| "inserts (ResumeGetTimetable u (Inr _)) = Some (DeleteTimetable u)"
| "inserts (ResumeGetHomeworks u (Inr _)) = Some (DeleteHomeworks u)"
| "inserts (ResumeGetAverages u (Inr _)) = Some (DeleteAverages u)"
| "inserts _ = None"

text \<open>
  \<open>orderly e f evs st\<close>: among the events \<open>evs\<close>, from the state \<open>st\<close> on, no
  resumption inserts the entry of \<open>f\<close> while the cache holds one.  This is so when no
  two calls of the same function for the same username overlap.
  \<open>undisturbed e f st\<close>: the events that led to \<open>st\<close> were orderly for \<open>f\<close>.
\<close>

fun orderly :: "env \<Rightarrow> timer_callback \<Rightarrow> event list \<Rightarrow> state \<Rightarrow> bool" where
  "orderly e f [] st = True"
| "orderly e f (ev # evs) st =
     ((inserts ev = Some f \<longrightarrow> \<not> holds f st) \<and> orderly e f evs (step e ev st))"

inductive undisturbed :: "env \<Rightarrow> timer_callback \<Rightarrow> state \<Rightarrow> bool"
  for e :: env and f :: timer_callback where
  fresh: "undisturbed e f (initial_state t0)"
| further: "undisturbed e f st \<Longrightarrow> (inserts ev = Some f \<Longrightarrow> \<not> holds f st)
           \<Longrightarrow> undisturbed e f (step e ev st)"

text \<open>
  \<open>deleted_at e f t st evs d\<close>: the entry of \<open>f\<close> is in the cache in \<open>st\<close>; after
  any orderly events \<open>evs\<close> that end before the time \<open>t\<close> it is still there,
  unchanged; and it is gone as soon as the clock reaches \<open>t\<close>.
\<close>

definition deleted_at :: "env \<Rightarrow> timer_callback \<Rightarrow> int \<Rightarrow> state \<Rightarrow> event list \<Rightarrow> nat \<Rightarrow> bool" where
  "deleted_at e f t st evs d =
     (holds f st \<and>
      (t \<le> clock st + int d \<longrightarrow> \<not> holds f (elapse d st)) \<and>
      (orderly e f evs st \<and> clock (run e evs st) < t \<longrightarrow>
         holds f (run e evs st) \<and> same_entry f st (run e evs st) \<and>
         (t \<le> clock (run e evs st) + int d \<longrightarrow> \<not> holds f (elapse d (run e evs st)))))"

text \<open>\<open>present_throughout e f evs st\<close>: no event of \<open>evs\<close> leaves the entry of \<open>f\<close> deleted.\<close>

fun present_throughout :: "env \<Rightarrow> timer_callback \<Rightarrow> event list \<Rightarrow> state \<Rightarrow> bool" where
  "present_throughout e f [] st = holds f st"
| "present_throughout e f (ev # evs) st = (holds f st \<and> present_throughout e f evs (step e ev st))"

section \<open>The grades as the specification describes them\<close>

text \<open>
  The marks of a response in traversal order, each with its subject.
\<close>

definition marks_in_order :: "raw_gradebook \<Rightarrow> (raw_subject \<times> raw_mark) list" where
  "marks_in_order raw =
     concat (map (\<lambda>subject. map (\<lambda>mark. (subject, mark))
                    (case s_grades subject of None \<Rightarrow> [] | Some marks \<Rightarrow> marks))
               (case subjects raw of None \<Rightarrow> [] | Some ss \<Rightarrow> ss))"

definition translated :: "env \<Rightarrow> string \<Rightarrow> string" where
  "translated e name = (case SubjectNames e name of None \<Rightarrow> name | Some local \<Rightarrow> local)"

text \<open>
  A field copied, with a fixed default for a missing value: the reading of the
  specification's sentence.  The fixed default of the date is the argument \<open>now\<close>.
\<close>

definition copied :: "'a option \<Rightarrow> 'a \<Rightarrow> 'a" where
  "copied x d = (if x = None then d else the x)"

definition copied_grade :: "env \<Rightarrow> date \<Rightarrow> raw_subject \<times> raw_mark \<Rightarrow> Grade" where
  "copied_grade e now sm =
     (let subject = fst sm; mark = snd sm;
          fields = \<lparr>g_subject = translated e (s_name subject),
                    g_average = copied (m_average mark) (Num 0),
                    g_coefficient = copied (m_coefficient mark) (Num 1),
                    g_comment = copied (m_comment mark) '''',
                    g_date = copied (m_date mark) now,
                    g_best = copied (m_max mark) (Num 20),
                    g_worst = copied (m_min mark) (Num 0),
                    g_scale = copied (m_scale mark) (Num 20),
                    g_value = copied (m_value mark) (Num 0)\<rparr>
      in \<lparr>g_subject = g_subject fields, g_average = g_average fields,
          g_coefficient = g_coefficient fields, g_comment = g_comment fields,
          g_date = g_date fields, g_best = g_best fields, g_worst = g_worst fields,
          g_scale = g_scale fields, g_value = g_value fields, g_hash = hashGrade e fields\<rparr>)"

text \<open>
  A number copied, with the default for a missing value and for the values \<open>0\<close> and
  \<open>NaN\<close>; a string copied, with the default for a missing and for an empty one.  The
  date is copied, and a missing date is the time \<open>now\<close> at which the entries are built,
  not a fixed one.
\<close>

definition number_or :: "number option \<Rightarrow> number \<Rightarrow> number" where
  "number_or x d = (if x = None \<or> x = Some (Num 0) \<or> x = Some NaN then d else the x)"

definition string_or :: "string option \<Rightarrow> string \<Rightarrow> string" where
  "string_or x d = (if x = None \<or> x = Some [] then d else the x)"

definition reshaped_grade :: "env \<Rightarrow> date \<Rightarrow> raw_subject \<times> raw_mark \<Rightarrow> Grade" where
  "reshaped_grade e now sm =
     (let subject = fst sm; mark = snd sm;
          fields = \<lparr>g_subject = translated e (s_name subject),
                    g_average = number_or (m_average mark) (Num 0),
                    g_coefficient = number_or (m_coefficient mark) (Num 1),
                    g_comment = string_or (m_comment mark) '''',
                    g_date = copied (m_date mark) now,
                    g_best = number_or (m_max mark) (Num 20),
                    g_worst = number_or (m_min mark) (Num 0),
                    g_scale = number_or (m_scale mark) (Num 20),
                    g_value = number_or (m_value mark) (Num 0)\<rparr>
      in \<lparr>g_subject = g_subject fields, g_average = g_average fields,
          g_coefficient = g_coefficient fields, g_comment = g_comment fields,
          g_date = g_date fields, g_best = g_best fields, g_worst = g_worst fields,
          g_scale = g_scale fields, g_value = g_value fields, g_hash = hashGrade e fields\<rparr>)"

section \<open>The helper script \<open>getTaskListId\<close>\<close>

text \<open>
  The script reads the credentials, builds the clients and awaits
  \<open>tasks.tasklists.list()\<close>; all of it is inside one \<open>try\<close>.  Its input in the model
  is how that part ends: \<open>Inl err\<close> when something threw or the request was rejected,
  \<open>Inr items\<close> with the property \<open>response.data.items\<close> of the answer otherwise
  (the answer has its \<open>data\<close>), \<open>None\<close> when \<open>data\<close> has no such property.  Its output is the returned value
  (\<open>None\<close> for \<open>undefined\<close>) and the lines written to the console.
\<close>

record task_list =
  tl_title :: string
  tl_id :: string

datatype console_line = Log string | Err string

fun decimal :: "nat \<Rightarrow> string" where
  "decimal n = (if n < 10 then [''0123456789'' ! n]
                else decimal (n div 10) @ [''0123456789'' ! (n mod 10)])"

text \<open>The \<open>TypeError\<close> of reading a property of \<open>undefined\<close>.\<close>

definition TypeError :: "string \<Rightarrow> error" where
  "TypeError property =
     Error (''Cannot read properties of undefined (reading '' @ [CHR 0x27] @ property @ [CHR 0x27] @ '')'')"

definition catch_block :: "error \<Rightarrow> console_line list \<Rightarrow> string option \<times> console_line list" where
  "catch_block err out =
     (None, out @ [Err (''Error getting task lists: '' @ message err),
                   Log ''Make sure:'',
                   Log ''1. google-credentials.json exists in this directory'',
                   Log ''2. Google Tasks API is enabled'',
                   Log ''3. Service account has proper permissions''])"

fun list_lines :: "nat \<Rightarrow> task_list list \<Rightarrow> console_line list" where
  "list_lines index [] = []"
| "list_lines index (l # ls) =
     Log (decimal (index + 1) @ ''. '' @ tl_title l @ '' (ID: '' @ tl_id l @ '')'')
       # list_lines (index + 1) ls"

definition getTaskListId :: "error + task_list list option \<Rightarrow> string option \<times> console_line list" where
  "getTaskListId outcome =
     (case outcome of
        Inl err \<Rightarrow> catch_block err []
      | Inr None \<Rightarrow> catch_block (TypeError ''forEach'') [Log ''Available Task Lists:'']
      | Inr (Some items) \<Rightarrow>
          (let out = Log ''Available Task Lists:'' # list_lines 0 items;
               defaultList =
                 (case find (\<lambda>l. tl_title l = ''@default'') items of
                    Some l \<Rightarrow> Some l
                  | None \<Rightarrow> (case items of [] \<Rightarrow> None | first # _ \<Rightarrow> Some first))
           in (case defaultList of
                 None \<Rightarrow> catch_block (TypeError ''id'') out
               | Some l \<Rightarrow>
                   (Some (tl_id l),
                    out @ [Log ([CHR 0x0A] @ ''Recommended Task List ID: '' @ tl_id l),
                           Log ''Copy this ID to your config.json taskListId field'']))))"

section \<open>Example values\<close>

definition example_env :: env where
  "example_env =
     \<lparr>refreshEvery = 300000, accountTimeout = 1800000,
      SubjectNames = [''MATHEMATIQUES'' \<mapsto> ''Maths''],
      hashGrade = (\<lambda>g. g_subject g @ ''/'' @ g_comment g),
      hashHomework = (\<lambda>h. h_subject h @ ''/'' @ h_content h)\<rparr>"

definition example_account :: Account where
  "example_account =
     \<lparr>acc_url = ''https://demo.index-education.net/pronote'', acc_username = ''alice'',
      acc_password = ''secret''\<rparr>"

definition example_mark :: raw_mark where
  "example_mark =
     \<lparr>m_average = Some (Num 12), m_coefficient = Some (Num 0), m_comment = Some ''Controle'',
      m_date = Some 1700000000000, m_max = Some (Num 0), m_min = Some (Num 3),
      m_scale = Some (Num 0), m_value = None\<rparr>"

definition example_gradebook :: raw_gradebook where
  "example_gradebook =
     \<lparr>subjects = Some [\<lparr>s_name = ''MATHEMATIQUES'', s_grades = Some [example_mark]\<rparr>,
                       \<lparr>s_name = ''HISTOIRE'', s_grades = None\<rparr>]\<rparr>"

definition example_lessons :: "raw_lesson list" where
  "example_lessons =
     [\<lparr>l_start = 1700000000000, l_classroom = Some ''B12'',
       l_subject = Some \<lparr>n_name = Some ''MATHEMATIQUES''\<rparr>, l_teacher = None,
       l_end = 1700003600000, l_isCancelled = Some True\<rparr>,
      \<lparr>l_start = 1700003600000, l_classroom = None, l_subject = None,
       l_teacher = Some \<lparr>n_name = Some ''M. Martin''\<rparr>,
       l_end = 1700007200000, l_isCancelled = None\<rparr>]"

definition example_assignments :: "raw_assignment list" where
  "example_assignments =
     [\<lparr>w_description = Some ''Exercice 3'', w_date = 1700000000000,
       w_attachments = Some [\<lparr>a_name = ''sujet.pdf'', a_url = ''https://example.org/sujet.pdf''\<rparr>],
       w_givenAt = None, w_subject = Some \<lparr>n_name = Some ''MATHEMATIQUES''\<rparr>,
       w_done = None\<rparr>]"

definition example_overview :: raw_overview where
  "example_overview =
     \<lparr>studentAverage = Some \<lparr>v_value = Some (Num 14)\<rparr>, classAverage = None\<rparr>"

definition example_task_lists :: "task_list list" where
  "example_task_lists =
     [\<lparr>tl_title = ''Homework'', tl_id = ''MDE1'' \<rparr>, \<lparr>tl_title = ''@default'', tl_id = ''MDE2''\<rparr>]"

text \<open>
  Two overlapping calls of \<open>getGrades\<close> for the same username: both start at time
  \<open>0\<close> and miss the cache; the first resumes at once, the second a second later.
\<close>

definition overlapping_grades :: "event list" where
  "overlapping_grades =
     [StartGetGrades ''alice'' (SessionHandle 1),
      StartGetGrades ''alice'' (SessionHandle 1),
      ResumeGetGrades ''alice'' (Inr example_gradebook),
      Elapse 1000,
      ResumeGetGrades ''alice'' (Inr example_gradebook)]"

text \<open>The same for two overlapping calls of \<open>getSession\<close>.\<close>

definition overlapping_logins :: "event list" where
  "overlapping_logins =
     [StartGetSession example_account (SessionHandle 1) ''p9q1z'',
      StartGetSession example_account (SessionHandle 2) ''k2j4x'',
      ResumeGetSession example_account (SessionHandle 1) (Inr ()),
      Elapse 1000,
      ResumeGetSession example_account (SessionHandle 2) (Inr ())]"

text \<open>The state after a first, successful call of \<open>getSession\<close>.\<close>

definition session_cached :: state where
  "session_cached =
     snd (getSession example_env (initial_state 0) example_account (SessionHandle 1)
            ''p9q1z'' (Inr ()))"

text \<open>
  The states after a first, successful call of each of the four other functions, and
  events that may follow it: a call of \<open>getSession\<close> that overlaps with two whole
  calls of other functions.
\<close>

definition grades_cached :: state where
  "grades_cached =
     snd (getGrades example_env (initial_state 0) ''alice'' (SessionHandle 1)
            (Inr example_gradebook))"

definition timetable_cached :: state where
  "timetable_cached =
     snd (getTimetable example_env (initial_state 0) ''alice'' (SessionHandle 1)
            (Inr example_lessons))"

definition homeworks_cached :: state where
  "homeworks_cached =
     snd (getHomeworks example_env (initial_state 0) ''alice'' (SessionHandle 1)
            (Inr example_assignments))"

definition averages_cached :: state where
  "averages_cached =
     snd (getAverages example_env (initial_state 0) ''alice'' (SessionHandle 1)
            (Inr example_overview))"

definition example_events :: "event list" where
  "example_events =
     [Elapse 1000,
      StartGetSession example_account (SessionHandle 3) ''k2j4x'',
      CallGetTimetable ''alice'' (SessionHandle 1) (Inl (Error ''timeout'')),
      CallGetGrades ''bob'' (SessionHandle 3) (Inr example_gradebook),
      ResumeGetSession example_account (SessionHandle 3) (Inr ())]"

text \<open>
  A call of \<open>getGrades\<close> starts and misses the cache; while it waits, a whole call for
  the same username is made, and succeeds.  \<open>late_answer\<close> is the resumption of the
  waiting call, with a gradebook that has no subject.
\<close>

definition grades_cached_meanwhile :: state where
  "grades_cached_meanwhile =
     snd (getGrades example_env
            (step example_env (StartGetGrades ''alice'' (SessionHandle 2)) (initial_state 0))
            ''alice'' (SessionHandle 1) (Inr example_gradebook))"

definition late_answer :: event where
  "late_answer = ResumeGetGrades ''alice'' (Inr \<lparr>subjects = Some []\<rparr>)"

text \<open>
  A configuration whose delays, \<open>refreshEvery - 30000\<close> and
  \<open>accountTimeout - 120000\<close>, are \<open>2147483648\<close>, one more than the runtime's timers
  take.
\<close>

definition slow_env :: env where
  "slow_env = example_env\<lparr>refreshEvery := 2147513648, accountTimeout := 2147603648\<rparr>"

text \<open>A gradebook whose only mark has no date.\<close>

definition undated_gradebook :: raw_gradebook where
  "undated_gradebook =
     \<lparr>subjects = Some [\<lparr>s_name = ''HISTOIRE'',
                         s_grades = Some [example_mark\<lparr>m_date := None\<rparr>]\<rparr>]\<rparr>"

text \<open>An assignment dated at the last time value of the range of \<open>Date\<close>.\<close>

definition last_assignments :: "raw_assignment list" where
  "last_assignments =
     [\<lparr>w_description = None, w_date = 8640000000000000, w_attachments = None,
       w_givenAt = None, w_subject = None, w_done = None\<rparr>]"

section \<open>The paths of each function\<close>

lemma getGrades_start_hit:
  "caches_grades st u = Some cached \<Longrightarrow> getGrades_start st u s = (Some cached, st)"
  by (simp add: getGrades_start_def)

lemma getGrades_start_miss:
  "caches_grades st u = None \<Longrightarrow> getGrades_start st u s = (None, library (Gradebook s) st)"
  by (simp add: getGrades_start_def)

lemma getGrades_resume_rejected: "getGrades_resume e st u (Inl err) = (Inr [], st)"
  by (simp add: getGrades_resume_def catch_null_def optional_chain_def nullish_def)

lemma getGrades_resume_fulfilled:
  "getGrades_resume e st u (Inr raw) =
     (Inr (subjects_loop e (clock st) (nullish (subjects raw) []) []),
      setTimeout (DeleteGrades u) (cacheTtl e)
        (st\<lparr>caches_grades := (caches_grades st)(u \<mapsto> subjects_loop e (clock st) (nullish (subjects raw) []) [])\<rparr>))"
  by (simp add: getGrades_resume_def catch_null_def optional_chain_def nullish_def Let_def)

lemma getGrades_hit:
  "caches_grades st u = Some cached \<Longrightarrow> getGrades e st u s r = (Inr cached, st)"
  by (simp add: getGrades_def getGrades_start_hit)

lemma getGrades_miss:
  "caches_grades st u = None \<Longrightarrow>
   getGrades e st u s r = getGrades_resume e (library (Gradebook s) st) u r"
  by (simp add: getGrades_def getGrades_start_miss)

lemma getGrades_rejected:
  "caches_grades st u = None \<Longrightarrow>
   getGrades e st u s (Inl err) = (Inr [], library (Gradebook s) st)"
  by (simp add: getGrades_miss getGrades_resume_rejected)

lemma getGrades_fulfilled:
  "caches_grades st u = None \<Longrightarrow>
   getGrades e st u s (Inr raw) =
     (Inr (subjects_loop e (clock st) (nullish (subjects raw) []) []),
      setTimeout (DeleteGrades u) (cacheTtl e)
        ((library (Gradebook s) st)\<lparr>caches_grades := (caches_grades st)(u \<mapsto> subjects_loop e (clock st) (nullish (subjects raw) []) [])\<rparr>))"
  by (simp add: getGrades_miss getGrades_resume_fulfilled library_def)

lemma getTimetable_start_hit:
  "caches_timetable st u = Some cached \<Longrightarrow> getTimetable_start st u s = (Some cached, st)"
  by (simp add: getTimetable_start_def)

lemma getTimetable_start_miss:
  "caches_timetable st u = None \<Longrightarrow> getTimetable_start st u s = (None, library (TimetableFromIntervals s) st)"
  by (simp add: getTimetable_start_def)

lemma getTimetable_resume_rejected: "getTimetable_resume e st u (Inl err) = (Inr [], st)"
  by (simp add: getTimetable_resume_def catch_null_def optional_chain_def nullish_def)

lemma getTimetable_resume_fulfilled:
  "getTimetable_resume e st u (Inr raw) =
     (Inr (map (lesson_entry e) raw),
      setTimeout (DeleteTimetable u) (cacheTtl e)
        (st\<lparr>caches_timetable := (caches_timetable st)(u \<mapsto> map (lesson_entry e) raw)\<rparr>))"
  by (simp add: getTimetable_resume_def catch_null_def optional_chain_def nullish_def Let_def)

lemma getTimetable_hit:
  "caches_timetable st u = Some cached \<Longrightarrow> getTimetable e st u s r = (Inr cached, st)"
  by (simp add: getTimetable_def getTimetable_start_hit)

lemma getTimetable_miss:
  "caches_timetable st u = None \<Longrightarrow>
   getTimetable e st u s r = getTimetable_resume e (library (TimetableFromIntervals s) st) u r"
  by (simp add: getTimetable_def getTimetable_start_miss)

lemma getTimetable_rejected:
  "caches_timetable st u = None \<Longrightarrow>
   getTimetable e st u s (Inl err) = (Inr [], library (TimetableFromIntervals s) st)"
  by (simp add: getTimetable_miss getTimetable_resume_rejected)

lemma getTimetable_fulfilled:
  "caches_timetable st u = None \<Longrightarrow>
   getTimetable e st u s (Inr raw) =
     (Inr (map (lesson_entry e) raw),
      setTimeout (DeleteTimetable u) (cacheTtl e)
        ((library (TimetableFromIntervals s) st)\<lparr>caches_timetable := (caches_timetable st)(u \<mapsto> map (lesson_entry e) raw)\<rparr>))"
  by (simp add: getTimetable_miss getTimetable_resume_fulfilled library_def)

lemma getHomeworks_start_hit:
  "caches_homeworks st u = Some cached \<Longrightarrow> getHomeworks_start st u s = (Some cached, st)"
  by (simp add: getHomeworks_start_def)

lemma getHomeworks_start_miss:
  "caches_homeworks st u = None \<Longrightarrow> getHomeworks_start st u s = (None, library (AssignmentsFromIntervals s) st)"
  by (simp add: getHomeworks_start_def)

lemma getHomeworks_resume_rejected: "getHomeworks_resume e st u (Inl err) = (Inr [], st)"
  by (simp add: getHomeworks_resume_def catch_null_def optional_chain_def nullish_def)

lemma getHomeworks_resume_fulfilled:
  "getHomeworks_resume e st u (Inr raw) =
     (Inr (map (homework_entry e (clock st)) raw),
      setTimeout (DeleteHomeworks u) (cacheTtl e)
        (st\<lparr>caches_homeworks := (caches_homeworks st)(u \<mapsto> map (homework_entry e (clock st)) raw)\<rparr>))"
  by (simp add: getHomeworks_resume_def catch_null_def optional_chain_def nullish_def Let_def)

lemma getHomeworks_hit:
  "caches_homeworks st u = Some cached \<Longrightarrow> getHomeworks e st u s r = (Inr cached, st)"
  by (simp add: getHomeworks_def getHomeworks_start_hit)

lemma getHomeworks_miss:
  "caches_homeworks st u = None \<Longrightarrow>
   getHomeworks e st u s r = getHomeworks_resume e (library (AssignmentsFromIntervals s) st) u r"
  by (simp add: getHomeworks_def getHomeworks_start_miss)

lemma getHomeworks_rejected:
  "caches_homeworks st u = None \<Longrightarrow>
   getHomeworks e st u s (Inl err) = (Inr [], library (AssignmentsFromIntervals s) st)"
  by (simp add: getHomeworks_miss getHomeworks_resume_rejected)

lemma getHomeworks_fulfilled:
  "caches_homeworks st u = None \<Longrightarrow>
   getHomeworks e st u s (Inr raw) =
     (Inr (map (homework_entry e (clock st)) raw),
      setTimeout (DeleteHomeworks u) (cacheTtl e)
        ((library (AssignmentsFromIntervals s) st)\<lparr>caches_homeworks := (caches_homeworks st)(u \<mapsto> map (homework_entry e (clock st)) raw)\<rparr>))"
  by (simp add: getHomeworks_miss getHomeworks_resume_fulfilled library_def)

lemma getAverages_start_hit:
  "caches_averages st u = Some cached \<Longrightarrow> getAverages_start st u s = (Some cached, st)"
  by (simp add: getAverages_start_def)

lemma getAverages_start_miss:
  "caches_averages st u = None \<Longrightarrow> getAverages_start st u s = (None, library (GradesOverview s) st)"
  by (simp add: getAverages_start_def)

lemma getAverages_resume_rejected: "getAverages_resume e st u (Inl err) = (Inr \<lparr>av_value = Num 0, av_everyone = Num 0\<rparr>, st)"
  by (simp add: getAverages_resume_def catch_null_def optional_chain_def nullish_def)

lemma getAverages_resume_fulfilled:
  "getAverages_resume e st u (Inr raw) =
     (Inr (\<lparr>av_value = nullish (optional_chain (studentAverage raw) v_value) (Num 0),
            av_everyone = nullish (optional_chain (classAverage raw) v_value) (Num 0)\<rparr>),
      setTimeout (DeleteAverages u) (cacheTtl e)
        (st\<lparr>caches_averages := (caches_averages st)(u \<mapsto> \<lparr>av_value = nullish (optional_chain (studentAverage raw) v_value) (Num 0),
            av_everyone = nullish (optional_chain (classAverage raw) v_value) (Num 0)\<rparr>)\<rparr>))"
  by (simp add: getAverages_resume_def catch_null_def optional_chain_def nullish_def Let_def)

lemma getAverages_hit:
  "caches_averages st u = Some cached \<Longrightarrow> getAverages e st u s r = (Inr cached, st)"
  by (simp add: getAverages_def getAverages_start_hit)

lemma getAverages_miss:
  "caches_averages st u = None \<Longrightarrow>
   getAverages e st u s r = getAverages_resume e (library (GradesOverview s) st) u r"
  by (simp add: getAverages_def getAverages_start_miss)

lemma getAverages_rejected:
  "caches_averages st u = None \<Longrightarrow>
   getAverages e st u s (Inl err) = (Inr \<lparr>av_value = Num 0, av_everyone = Num 0\<rparr>, library (GradesOverview s) st)"
  by (simp add: getAverages_miss getAverages_resume_rejected)

lemma getAverages_fulfilled:
  "caches_averages st u = None \<Longrightarrow>
   getAverages e st u s (Inr raw) =
     (Inr (\<lparr>av_value = nullish (optional_chain (studentAverage raw) v_value) (Num 0),
            av_everyone = nullish (optional_chain (classAverage raw) v_value) (Num 0)\<rparr>),
      setTimeout (DeleteAverages u) (cacheTtl e)
        ((library (GradesOverview s) st)\<lparr>caches_averages := (caches_averages st)(u \<mapsto> \<lparr>av_value = nullish (optional_chain (studentAverage raw) v_value) (Num 0),
            av_everyone = nullish (optional_chain (classAverage raw) v_value) (Num 0)\<rparr>)\<rparr>))"
  by (simp add: getAverages_miss getAverages_resume_fulfilled library_def)

lemma getSession_start_hit:
  "caches_sessions st (acc_username a) = Some cached \<Longrightarrow>
   getSession_start st a created suffix = (Some cached, st)"
  by (simp add: getSession_start_def)

lemma getSession_start_miss:
  "caches_sessions st (acc_username a) = None \<Longrightarrow>
   getSession_start st a created suffix =
     (None,
      library (LoginCredentials created (acc_url a) (acc_username a) (acc_password a)
                 (''smartpronote-'' @ suffix))
        (library CreateSessionHandle st))"
  by (simp add: getSession_start_def Let_def)

lemma getSession_resume_rejected: "getSession_resume e st a h (Inl err) = (Inl err, st)"
  by (simp add: getSession_resume_def)

lemma getSession_resume_fulfilled:
  "getSession_resume e st a h (Inr x) =
     (Inr h,
      setTimeout (DeleteSession (acc_username a)) (accountTimeout e - 2 * 60 * 1000)
        ((setTimeout SessionExpiry (accountTimeout e) st)\<lparr>caches_sessions :=
           (caches_sessions st)(acc_username a \<mapsto> h)\<rparr>))"
  by (simp add: getSession_resume_def Let_def setTimeout_def)

lemma getSession_hit:
  "caches_sessions st (acc_username a) = Some cached \<Longrightarrow>
   getSession e st a created suffix login = (Inr cached, st)"
  by (simp add: getSession_def getSession_start_hit)

lemma getSession_miss:
  "caches_sessions st (acc_username a) = None \<Longrightarrow>
   getSession e st a created suffix login =
     getSession_resume e
       (library (LoginCredentials created (acc_url a) (acc_username a) (acc_password a)
                   (''smartpronote-'' @ suffix))
          (library CreateSessionHandle st)) a created login"
  by (simp add: getSession_def getSession_start_miss)

lemma getSession_rejected:
  "caches_sessions st (acc_username a) = None \<Longrightarrow>
   getSession e st a created suffix (Inl err) =
     (Inl err,
      library (LoginCredentials created (acc_url a) (acc_username a) (acc_password a)
                 (''smartpronote-'' @ suffix))
        (library CreateSessionHandle st))"
  by (simp add: getSession_miss getSession_resume_rejected)

lemma getSession_fulfilled:
  "caches_sessions st (acc_username a) = None \<Longrightarrow>
   getSession e st a created suffix (Inr x) =
     (Inr created,
      setTimeout (DeleteSession (acc_username a)) (accountTimeout e - 2 * 60 * 1000)
        ((setTimeout SessionExpiry (accountTimeout e)
            (library (LoginCredentials created (acc_url a) (acc_username a) (acc_password a)
                        (''smartpronote-'' @ suffix))
               (library CreateSessionHandle st)))\<lparr>caches_sessions :=
           (caches_sessions st)(acc_username a \<mapsto> created)\<rparr>))"
  by (simp add: getSession_miss getSession_resume_fulfilled library_def setTimeout_def)

section \<open>Entries and timers\<close>

lemma same_entry_refl: "same_entry f st st"
  by (cases f) simp_all

lemma same_entry_trans:
  "same_entry f st st' \<Longrightarrow> same_entry f st' st'' \<Longrightarrow> same_entry f st st''"
  by (cases f) simp_all

lemma same_entry_holds: "same_entry f st st' \<Longrightarrow> holds f st' = holds f st"
  by (cases f) simp_all

lemma holds_fire: "holds f (fire g st) = (holds f st \<and> f \<noteq> g)"
  by (cases f; cases g) auto

lemma same_entry_fire: "f \<noteq> g \<Longrightarrow> same_entry f st (fire g st)"
  by (cases f; cases g) auto

lemma timers_fire: "timers (fire g st) = timers st"
  by (cases g) simp_all

lemma clock_fire: "clock (fire g st) = clock st"
  by (cases g) simp_all

lemma lib_calls_fire: "lib_calls (fire g st) = lib_calls st"
  by (cases g) simp_all

lemma timers_fire_all: "timers (foldl (\<lambda>s t. fire (callback t) s) st ts) = timers st"
  by (induction ts arbitrary: st) (simp_all add: timers_fire)

lemma clock_fire_all: "clock (foldl (\<lambda>s t. fire (callback t) s) st ts) = clock st"
  by (induction ts arbitrary: st) (simp_all add: clock_fire)

lemma lib_calls_fire_all: "lib_calls (foldl (\<lambda>s t. fire (callback t) s) st ts) = lib_calls st"
  by (induction ts arbitrary: st) (simp_all add: lib_calls_fire)

lemma holds_fire_all:
  "holds f (foldl (\<lambda>s t. fire (callback t) s) st ts) = (holds f st \<and> f \<notin> callback ` set ts)"
  by (induction ts arbitrary: st) (auto simp: holds_fire)

lemma same_entry_fire_all:
  "f \<notin> callback ` set ts \<Longrightarrow> same_entry f st (foldl (\<lambda>s t. fire (callback t) s) st ts)"
proof (induction ts arbitrary: st)
  case Nil
  show ?case by (simp add: same_entry_refl)
next
  case (Cons t ts)
  have "same_entry f st (fire (callback t) st)"
    using Cons.prems by (simp add: same_entry_fire)
  moreover have "same_entry f (fire (callback t) st)
                   (foldl (\<lambda>s t. fire (callback t) s) (fire (callback t) st) ts)"
    using Cons.prems by (intro Cons.IH) simp
  ultimately show ?case
    by (simp add: same_entry_trans)
qed

lemma clock_elapse: "clock (elapse d st) = clock st + int d"
  by (simp add: elapse_def Let_def clock_fire_all)

lemma timers_elapse:
  "timers (elapse d st) = filter (\<lambda>t. \<not> due t \<le> clock st + int d) (timers st)"
  by (simp add: elapse_def Let_def timers_fire_all)

lemma lib_calls_elapse: "lib_calls (elapse d st) = lib_calls st"
  by (simp add: elapse_def Let_def lib_calls_fire_all)

lemma pending_elapse:
  "pending f (elapse d st) = filter (\<lambda>x. \<not> x \<le> clock st + int d) (pending f st)"
  by (simp add: pending_def timers_elapse filter_map o_def conj_commute)

lemma holds_elapse:
  "holds f (elapse d st) = (holds f st \<and> (\<forall>x \<in> set (pending f st). \<not> x \<le> clock st + int d))"
proof -
  have "holds f (st\<lparr>clock := c, timers := w\<rparr>) = holds f st" for c w
    by (cases f) simp_all
  then show ?thesis
    by (auto simp: elapse_def Let_def holds_fire_all pending_def)
qed

lemma same_entry_elapse:
  assumes "holds f (elapse d st)"
  shows "same_entry f st (elapse d st)"
proof -
  let ?now = "clock st + int d"
  let ?st = "st\<lparr>clock := ?now, timers := filter (\<lambda>t. \<not> due t \<le> ?now) (timers st)\<rparr>"
  let ?ready = "sort_key due (filter (\<lambda>t. due t \<le> ?now) (timers st))"
  from assms have "\<forall>x \<in> set (pending f st). \<not> x \<le> ?now"
    by (simp add: holds_elapse)
  then have "\<forall>t \<in> set (timers st). callback t = f \<longrightarrow> \<not> due t \<le> ?now"
    by (simp add: pending_def)
  then have "f \<notin> callback ` set ?ready"
    by auto
  then have 1: "same_entry f ?st (foldl (\<lambda>s t. fire (callback t) s) ?st ?ready)"
    by (rule same_entry_fire_all)
  have 2: "same_entry f st ?st"
    by (cases f) simp_all
  have "elapse d st = foldl (\<lambda>s t. fire (callback t) s) ?st ?ready"
    by (simp add: elapse_def Let_def)
  with same_entry_trans [OF 2 1] show ?thesis
    by simp
qed

lemma pending_library: "pending f (library c st) = pending f st"
  by (simp add: pending_def library_def)

lemma holds_library: "holds f (library c st) = holds f st"
  by (cases f) (simp_all add: library_def)

lemma same_entry_library: "same_entry f st (library c st)"
  by (cases f) (simp_all add: library_def)

lemma clock_library: "clock (library c st) = clock st"
  by (simp add: library_def)

lemma pending_setTimeout:
  "pending f (setTimeout g delay st) = pending f st @ (if g = f then [clock st + timer_delay delay] else [])"
  by (simp add: pending_def setTimeout_def)

lemma timer_delay_range: "1 \<le> delay \<Longrightarrow> delay \<le> 2147483647 \<Longrightarrow> timer_delay delay = delay"
  by (simp add: timer_delay_def)

lemma holds_setTimeout: "holds f (setTimeout g delay st) = holds f st"
  by (cases f) (simp_all add: setTimeout_def)

lemma same_entry_setTimeout: "same_entry f st (setTimeout g delay st)"
  by (cases f) (simp_all add: setTimeout_def)

lemma clock_setTimeout: "clock (setTimeout g delay st) = clock st"
  by (simp add: setTimeout_def)

text \<open>
  The resumption of a call either leaves the entry of \<open>f\<close> and its timers as they
  are, or it inserts the entry and registers one more timer for it.  The start of a call
  leaves both as they are.  A whole call inserts the entry only if it was not there.
\<close>

lemma getGrades_resume_effect:
  fixes e st u r f
  defines "st' \<equiv> snd (getGrades_resume e st u r)"
  shows "clock st' = clock st \<and>
         (pending f st' = pending f st \<and> same_entry f st st' \<or>
          f = DeleteGrades u \<and> inserts (ResumeGetGrades u r) = Some f \<and> holds f st' \<and>
          pending f st' = pending f st @ [clock st + timer_delay (cacheTtl e)])"
proof (cases r)
  case (Inl err)
  then show ?thesis
    by (simp add: st'_def getGrades_resume_rejected same_entry_refl)
next
  case (Inr raw)
  then show ?thesis
    by (cases f) (simp_all add: st'_def getGrades_resume_fulfilled pending_def setTimeout_def)
qed

lemma getGrades_start_effect:
  fixes st u s f
  defines "st' \<equiv> snd (getGrades_start st u s)"
  shows "clock st' = clock st \<and> pending f st' = pending f st \<and> same_entry f st st'"
  by (cases "caches_grades st u")
    (simp_all add: st'_def getGrades_start_hit getGrades_start_miss clock_library pending_library
       same_entry_library same_entry_refl)

lemma getGrades_effect:
  fixes e st u s r f
  defines "st' \<equiv> snd (getGrades e st u s r)"
  shows "clock st' = clock st \<and>
         (pending f st' = pending f st \<and> same_entry f st st' \<or>
          f = DeleteGrades u \<and> \<not> holds f st \<and> holds f st' \<and>
          pending f st' = pending f st @ [clock st + timer_delay (cacheTtl e)])"
proof (cases "caches_grades st u")
  case (Some cached)
  then show ?thesis
    by (simp add: st'_def getGrades_hit same_entry_refl)
next
  case None
  show ?thesis
  proof (cases r)
    case (Inl err)
    with None show ?thesis
      by (simp add: st'_def getGrades_rejected pending_library same_entry_library clock_library)
  next
    case (Inr raw)
    with None show ?thesis
      by (cases f) (simp_all add: st'_def getGrades_fulfilled pending_def setTimeout_def library_def)
  qed
qed

lemma getTimetable_resume_effect:
  fixes e st u r f
  defines "st' \<equiv> snd (getTimetable_resume e st u r)"
  shows "clock st' = clock st \<and>
         (pending f st' = pending f st \<and> same_entry f st st' \<or>
          f = DeleteTimetable u \<and> inserts (ResumeGetTimetable u r) = Some f \<and> holds f st' \<and>
          pending f st' = pending f st @ [clock st + timer_delay (cacheTtl e)])"
proof (cases r)
  case (Inl err)
  then show ?thesis
    by (simp add: st'_def getTimetable_resume_rejected same_entry_refl)
next
  case (Inr raw)
  then show ?thesis
    by (cases f) (simp_all add: st'_def getTimetable_resume_fulfilled pending_def setTimeout_def)
qed

lemma getTimetable_start_effect:
  fixes st u s f
  defines "st' \<equiv> snd (getTimetable_start st u s)"
  shows "clock st' = clock st \<and> pending f st' = pending f st \<and> same_entry f st st'"
  by (cases "caches_timetable st u")
    (simp_all add: st'_def getTimetable_start_hit getTimetable_start_miss clock_library pending_library
       same_entry_library same_entry_refl)

lemma getTimetable_effect:
  fixes e st u s r f
  defines "st' \<equiv> snd (getTimetable e st u s r)"
  shows "clock st' = clock st \<and>
         (pending f st' = pending f st \<and> same_entry f st st' \<or>
          f = DeleteTimetable u \<and> \<not> holds f st \<and> holds f st' \<and>
          pending f st' = pending f st @ [clock st + timer_delay (cacheTtl e)])"
proof (cases "caches_timetable st u")
  case (Some cached)
  then show ?thesis
    by (simp add: st'_def getTimetable_hit same_entry_refl)
next
  case None
  show ?thesis
  proof (cases r)
    case (Inl err)
    with None show ?thesis
      by (simp add: st'_def getTimetable_rejected pending_library same_entry_library clock_library)
  next
    case (Inr raw)
    with None show ?thesis
      by (cases f) (simp_all add: st'_def getTimetable_fulfilled pending_def setTimeout_def library_def)
  qed
qed

lemma getHomeworks_resume_effect:
  fixes e st u r f
  defines "st' \<equiv> snd (getHomeworks_resume e st u r)"
  shows "clock st' = clock st \<and>
         (pending f st' = pending f st \<and> same_entry f st st' \<or>
          f = DeleteHomeworks u \<and> inserts (ResumeGetHomeworks u r) = Some f \<and> holds f st' \<and>
          pending f st' = pending f st @ [clock st + timer_delay (cacheTtl e)])"
proof (cases r)
  case (Inl err)
  then show ?thesis
    by (simp add: st'_def getHomeworks_resume_rejected same_entry_refl)
next
  case (Inr raw)
  then show ?thesis
    by (cases f) (simp_all add: st'_def getHomeworks_resume_fulfilled pending_def setTimeout_def)
qed

lemma getHomeworks_start_effect:
  fixes st u s f
  defines "st' \<equiv> snd (getHomeworks_start st u s)"
  shows "clock st' = clock st \<and> pending f st' = pending f st \<and> same_entry f st st'"
  by (cases "caches_homeworks st u")
    (simp_all add: st'_def getHomeworks_start_hit getHomeworks_start_miss clock_library pending_library
       same_entry_library same_entry_refl)

lemma getHomeworks_effect:
  fixes e st u s r f
  defines "st' \<equiv> snd (getHomeworks e st u s r)"
  shows "clock st' = clock st \<and>
         (pending f st' = pending f st \<and> same_entry f st st' \<or>
          f = DeleteHomeworks u \<and> \<not> holds f st \<and> holds f st' \<and>
          pending f st' = pending f st @ [clock st + timer_delay (cacheTtl e)])"
proof (cases "caches_homeworks st u")
  case (Some cached)
  then show ?thesis
    by (simp add: st'_def getHomeworks_hit same_entry_refl)
next
  case None
  show ?thesis
  proof (cases r)
    case (Inl err)
    with None show ?thesis
      by (simp add: st'_def getHomeworks_rejected pending_library same_entry_library clock_library)
  next
    case (Inr raw)
    with None show ?thesis
      by (cases f) (simp_all add: st'_def getHomeworks_fulfilled pending_def setTimeout_def library_def)
  qed
qed

lemma getAverages_resume_effect:
  fixes e st u r f
  defines "st' \<equiv> snd (getAverages_resume e st u r)"
  shows "clock st' = clock st \<and>
         (pending f st' = pending f st \<and> same_entry f st st' \<or>
          f = DeleteAverages u \<and> inserts (ResumeGetAverages u r) = Some f \<and> holds f st' \<and>
          pending f st' = pending f st @ [clock st + timer_delay (cacheTtl e)])"
proof (cases r)
  case (Inl err)
  then show ?thesis
    by (simp add: st'_def getAverages_resume_rejected same_entry_refl)
next
  case (Inr raw)
  then show ?thesis
    by (cases f) (simp_all add: st'_def getAverages_resume_fulfilled pending_def setTimeout_def)
qed

lemma getAverages_start_effect:
  fixes st u s f
  defines "st' \<equiv> snd (getAverages_start st u s)"
  shows "clock st' = clock st \<and> pending f st' = pending f st \<and> same_entry f st st'"
  by (cases "caches_averages st u")
    (simp_all add: st'_def getAverages_start_hit getAverages_start_miss clock_library pending_library
       same_entry_library same_entry_refl)

lemma getAverages_effect:
  fixes e st u s r f
  defines "st' \<equiv> snd (getAverages e st u s r)"
  shows "clock st' = clock st \<and>
         (pending f st' = pending f st \<and> same_entry f st st' \<or>
          f = DeleteAverages u \<and> \<not> holds f st \<and> holds f st' \<and>
          pending f st' = pending f st @ [clock st + timer_delay (cacheTtl e)])"
proof (cases "caches_averages st u")
  case (Some cached)
  then show ?thesis
    by (simp add: st'_def getAverages_hit same_entry_refl)
next
  case None
  show ?thesis
  proof (cases r)
    case (Inl err)
    with None show ?thesis
      by (simp add: st'_def getAverages_rejected pending_library same_entry_library clock_library)
  next
    case (Inr raw)
    with None show ?thesis
      by (cases f) (simp_all add: st'_def getAverages_fulfilled pending_def setTimeout_def library_def)
  qed
qed

lemma getSession_resume_effect:
  fixes e st a h login f
  defines "st' \<equiv> snd (getSession_resume e st a h login)"
  assumes "f \<noteq> SessionExpiry"
  shows "clock st' = clock st \<and>
         (pending f st' = pending f st \<and> same_entry f st st' \<or>
          f = DeleteSession (acc_username a) \<and> inserts (ResumeGetSession a h login) = Some f \<and>
          holds f st' \<and>
          pending f st' = pending f st @ [clock st + timer_delay (accountTimeout e - 2 * 60 * 1000)])"
proof (cases login)
  case (Inl err)
  then show ?thesis
    by (simp add: st'_def getSession_resume_rejected same_entry_refl)
next
  case (Inr x)
  with assms(2) show ?thesis
    by (cases f) (simp_all add: st'_def getSession_resume_fulfilled pending_def setTimeout_def)
qed

lemma getSession_start_effect:
  fixes st a created suffix f
  defines "st' \<equiv> snd (getSession_start st a created suffix)"
  shows "clock st' = clock st \<and> pending f st' = pending f st \<and> same_entry f st st'"
  by (cases "caches_sessions st (acc_username a)")
    (simp_all add: st'_def getSession_start_hit getSession_start_miss clock_library
       pending_library same_entry_refl
       same_entry_trans [OF same_entry_library same_entry_library])

lemma getSession_effect:
  fixes e st a created suffix login f
  defines "st' \<equiv> snd (getSession e st a created suffix login)"
  assumes "f \<noteq> SessionExpiry"
  shows "clock st' = clock st \<and>
         (pending f st' = pending f st \<and> same_entry f st st' \<or>
          f = DeleteSession (acc_username a) \<and> \<not> holds f st \<and> holds f st' \<and>
          pending f st' = pending f st @ [clock st + timer_delay (accountTimeout e - 2 * 60 * 1000)])"
proof (cases "caches_sessions st (acc_username a)")
  case (Some cached)
  then show ?thesis
    by (simp add: st'_def getSession_hit same_entry_refl)
next
  case None
  show ?thesis
  proof (cases login)
    case (Inl err)
    with None show ?thesis
      by (simp add: st'_def getSession_rejected pending_library same_entry_library clock_library
            same_entry_trans [OF same_entry_library same_entry_library])
  next
    case (Inr x)
    with None assms show ?thesis
      by (cases f) (simp_all add: st'_def getSession_fulfilled pending_def setTimeout_def library_def)
  qed
qed

lemma event_effect:
  assumes "f \<noteq> SessionExpiry" and "\<And>d. ev \<noteq> Elapse d"
  shows "clock (step e ev st) = clock st \<and>
         (pending f (step e ev st) = pending f st \<and> same_entry f st (step e ev st) \<or>
          holds f (step e ev st) \<and> (\<exists>b. pending f (step e ev st) = pending f st @ [b]) \<and>
          (\<not> holds f st \<or> inserts ev = Some f))"
proof (cases ev)
  case (CallGetSession a created suffix login)
  show ?thesis
    using getSession_effect [of f e st a created suffix login] assms(1)
    unfolding CallGetSession by auto
next
  case (CallGetGrades u s r)
  show ?thesis
    using getGrades_effect [of e st u s r f] unfolding CallGetGrades by auto
next
  case (CallGetTimetable u s r)
  show ?thesis
    using getTimetable_effect [of e st u s r f] unfolding CallGetTimetable by auto
next
  case (CallGetHomeworks u s r)
  show ?thesis
    using getHomeworks_effect [of e st u s r f] unfolding CallGetHomeworks by auto
next
  case (CallGetAverages u s r)
  show ?thesis
    using getAverages_effect [of e st u s r f] unfolding CallGetAverages by auto
next
  case (StartGetSession a created suffix)
  show ?thesis
    using getSession_start_effect [of st a created suffix f] unfolding StartGetSession by simp
next
  case (StartGetGrades u s)
  show ?thesis
    using getGrades_start_effect [of st u s f] unfolding StartGetGrades by simp
next
  case (StartGetTimetable u s)
  show ?thesis
    using getTimetable_start_effect [of st u s f] unfolding StartGetTimetable by simp
next
  case (StartGetHomeworks u s)
  show ?thesis
    using getHomeworks_start_effect [of st u s f] unfolding StartGetHomeworks by simp
next
  case (StartGetAverages u s)
  show ?thesis
    using getAverages_start_effect [of st u s f] unfolding StartGetAverages by simp
next
  case (ResumeGetSession a h login)
  show ?thesis
    using getSession_resume_effect [of f e st a h login] assms(1)
    unfolding ResumeGetSession by auto
next
  case (ResumeGetGrades u r)
  show ?thesis
    using getGrades_resume_effect [of e st u r f] unfolding ResumeGetGrades by auto
next
  case (ResumeGetTimetable u r)
  show ?thesis
    using getTimetable_resume_effect [of e st u r f] unfolding ResumeGetTimetable by auto
next
  case (ResumeGetHomeworks u r)
  show ?thesis
    using getHomeworks_resume_effect [of e st u r f] unfolding ResumeGetHomeworks by auto
next
  case (ResumeGetAverages u r)
  show ?thesis
    using getAverages_resume_effect [of e st u r f] unfolding ResumeGetAverages by auto
next
  case (Elapse d)
  with assms(2) [of d] show ?thesis by simp
qed

lemma clock_step: "clock st \<le> clock (step e ev st)"
proof (cases "\<exists>d. ev = Elapse d")
  case True
  then show ?thesis by (auto simp: clock_elapse)
next
  case False
  then have "\<And>d. ev \<noteq> Elapse d" by blast
  from event_effect [OF _ this, of "DeleteSession []" e st] show ?thesis by simp
qed

lemma clock_run: "clock st \<le> clock (run e evs st)"
proof (induction evs arbitrary: st)
  case Nil
  show ?case by simp
next
  case (Cons ev evs)
  have "clock st \<le> clock (step e ev st)" by (rule clock_step)
  also have "\<dots> \<le> clock (run e evs (step e ev st))" by (rule Cons.IH)
  finally show ?case by simp
qed

text \<open>
  As long as no resumption has inserted the entry of \<open>f\<close> while the cache held one, an
  entry in the cache has exactly one timer, and a key that is not in the cache has none.
\<close>

lemma pending_initial: "pending f (initial_state t0) = []"
  by (simp add: pending_def initial_state_def)

lemma holds_initial: "\<not> holds f (initial_state t0)"
  by (cases f) (simp_all add: initial_state_def)

lemma one_timer_step:
  assumes "f \<noteq> SessionExpiry"
    and "length (pending f st) = (if holds f st then 1 else 0)"
    and "inserts ev = Some f \<Longrightarrow> \<not> holds f st"
  shows "length (pending f (step e ev st)) = (if holds f (step e ev st) then 1 else 0)"
proof (cases "\<exists>d. ev = Elapse d")
  case True
  then obtain d where ev: "ev = Elapse d" by blast
  show ?thesis
  proof (cases "holds f st")
    case True
    with assms(2) obtain b where "pending f st = [b]"
      by (cases "pending f st") auto
    with True show ?thesis
      by (simp add: ev pending_elapse holds_elapse)
  next
    case False
    with assms(2) show ?thesis
      by (simp add: ev pending_elapse holds_elapse)
  qed
next
  case False
  then have "\<And>d. ev \<noteq> Elapse d" by blast
  from event_effect [OF assms(1) this, of e st] assms(2,3) show ?thesis
    by (auto simp: same_entry_holds split: if_splits)
qed

lemma one_timer:
  "undisturbed e f st \<Longrightarrow> f \<noteq> SessionExpiry \<Longrightarrow>
   length (pending f st) = (if holds f st then 1 else 0)"
proof (induction rule: undisturbed.induct)
  case (fresh t0)
  show ?case by (simp add: pending_initial holds_initial)
next
  case (further st ev)
  then show ?case by (intro one_timer_step) simp_all
qed

lemma no_timer:
  "undisturbed e f st \<Longrightarrow> f \<noteq> SessionExpiry \<Longrightarrow> \<not> holds f st \<Longrightarrow> pending f st = []"
  using one_timer [of e f st] by simp

text \<open>
  An entry with a single timer stays as it is while the clock is before the timer's
  time, whatever orderly events happen, and is deleted when the clock reaches it.
\<close>

lemma kept_step:
  assumes "f \<noteq> SessionExpiry" and "pending f st = [b]" and "holds f st"
    and "inserts ev \<noteq> Some f" and "clock (step e ev st) < b"
  shows "pending f (step e ev st) = [b] \<and> holds f (step e ev st) \<and> same_entry f st (step e ev st)"
proof (cases "\<exists>d. ev = Elapse d")
  case True
  then obtain d where ev: "ev = Elapse d" by blast
  from assms(5) have "\<not> b \<le> clock st + int d"
    by (simp add: ev clock_elapse)
  with assms(2,3) have "pending f (elapse d st) = [b]" and h: "holds f (elapse d st)"
    by (simp_all add: pending_elapse holds_elapse)
  with same_entry_elapse [OF h] show ?thesis
    by (simp add: ev)
next
  case False
  then have "\<And>d. ev \<noteq> Elapse d" by blast
  from event_effect [OF assms(1) this, of e st] assms(2,3,4) show ?thesis
    by (auto simp: same_entry_holds)
qed

lemma kept_run:
  assumes "f \<noteq> SessionExpiry"
  shows "pending f st = [b] \<Longrightarrow> holds f st \<Longrightarrow> orderly e f evs st \<Longrightarrow>
         clock (run e evs st) < b \<Longrightarrow>
         pending f (run e evs st) = [b] \<and> holds f (run e evs st) \<and>
         same_entry f st (run e evs st)"
proof (induction evs arbitrary: st)
  case Nil
  then show ?case by (simp add: same_entry_refl)
next
  case (Cons ev evs)
  have "clock (step e ev st) \<le> clock (run e evs (step e ev st))"
    by (rule clock_run)
  with Cons.prems(4) have c: "clock (step e ev st) < b" by simp
  from Cons.prems(2,3) have i: "inserts ev \<noteq> Some f" and o: "orderly e f evs (step e ev st)"
    by auto
  from kept_step [OF assms Cons.prems(1,2) i c]
  have p: "pending f (step e ev st) = [b]" and h: "holds f (step e ev st)"
    and s: "same_entry f st (step e ev st)"
    by simp_all
  from Cons.prems(4) have "clock (run e evs (step e ev st)) < b" by simp
  from Cons.IH [OF p h o this] s show ?case
    by (auto intro: same_entry_trans)
qed

lemma gone_when_due:
  "pending f st = [b] \<Longrightarrow> b \<le> clock st + int d \<Longrightarrow> \<not> holds f (elapse d st)"
  by (simp add: holds_elapse)

lemma scheduled_deletion:
  assumes "f \<noteq> SessionExpiry" and "pending f st = [t]" and "holds f st"
  shows "deleted_at e f t st evs d"
  unfolding deleted_at_def
  using assms kept_run [OF assms(1,2,3), of e evs] gone_when_due [of f st t d]
    gone_when_due [of f "run e evs st" t d]
  by auto

lemma present_while_early:
  assumes "f \<noteq> SessionExpiry"
  shows "pending f st = [b] \<Longrightarrow> holds f st \<Longrightarrow> orderly e f evs st \<Longrightarrow>
         clock (run e evs st) < b \<Longrightarrow> present_throughout e f evs st"
proof (induction evs arbitrary: st)
  case Nil
  then show ?case by simp
next
  case (Cons ev evs)
  have "clock (step e ev st) \<le> clock (run e evs (step e ev st))"
    by (rule clock_run)
  with Cons.prems(4) have c: "clock (step e ev st) < b" by simp
  from Cons.prems(2,3) have i: "inserts ev \<noteq> Some f" and o: "orderly e f evs (step e ev st)"
    by auto
  from kept_step [OF assms Cons.prems(1,2) i c] Cons.prems(2,4) o Cons.IH [of "step e ev st"]
  show ?case by simp
qed

text \<open>While an entry is neither deleted nor inserted anew, it does not change.\<close>

lemma unchanged_step:
  assumes "holds f st" and "holds f (step e ev st)" and "inserts ev \<noteq> Some f"
  shows "same_entry f st (step e ev st)"
proof (cases "\<exists>d. ev = Elapse d")
  case True
  with assms(2) show ?thesis
    by (auto simp: same_entry_elapse)
next
  case False
  then have *: "\<And>d. ev \<noteq> Elapse d" by blast
  from assms(1) have "f \<noteq> SessionExpiry" by auto
  from event_effect [OF this *, of e st] assms(1,3) show ?thesis
    by auto
qed

lemma unchanged_run:
  "present_throughout e f evs st \<Longrightarrow> orderly e f evs st \<Longrightarrow>
   same_entry f st (run e evs st) \<and> holds f (run e evs st)"
proof (induction evs arbitrary: st)
  case Nil
  then show ?case by (simp add: same_entry_refl)
next
  case (Cons ev evs)
  then have h: "holds f st" and p: "present_throughout e f evs (step e ev st)"
    and i: "inserts ev \<noteq> Some f" and o: "orderly e f evs (step e ev st)"
    by auto
  from p have "holds f (step e ev st)" by (cases evs) simp_all
  with h have "same_entry f st (step e ev st)" using i by (rule unchanged_step)
  with Cons.IH [OF p o] show ?case
    by (auto intro: same_entry_trans)
qed

section \<open>The loops of \<open>getGrades\<close>\<close>

lemma js_or_number: "js_or truthy_number x d = number_or x d"
proof (cases x)
  case None
  then show ?thesis by (simp add: js_or_def number_or_def)
next
  case (Some v)
  then show ?thesis by (cases v) (simp_all add: js_or_def number_or_def)
qed

lemma js_or_string: "js_or truthy_string x d = string_or x d"
  by (cases x) (simp_all add: js_or_def string_or_def truthy_string_def)

lemma js_or_object: "js_or truthy_object x d = copied x d"
  by (cases x) (simp_all add: js_or_def copied_def truthy_object_def)

lemma nullish_SubjectNames: "nullish (SubjectNames e name) name = translated e name"
  by (simp add: nullish_def translated_def)

lemma marks_loop_map:
  "marks_loop e now subject marks grades =
     grades @ map (\<lambda>mark. reshaped_grade e now (subject, mark)) marks"
proof (induction marks arbitrary: grades)
  case Nil
  show ?case by simp
next
  case (Cons mark marks)
  show ?case
    by (simp add: Cons.IH Let_def reshaped_grade_def js_or_number js_or_string js_or_object
          nullish_SubjectNames grade_fields.defs Grade.defs)
qed

lemma subjects_loop_concat:
  "subjects_loop e now ss grades =
     grades @ concat (map (\<lambda>subject. map (\<lambda>mark. reshaped_grade e now (subject, mark))
                                      (case s_grades subject of None \<Rightarrow> [] | Some marks \<Rightarrow> marks)) ss)"
proof (induction ss arbitrary: grades)
  case Nil
  show ?case by simp
next
  case (Cons subject ss)
  show ?case
    by (simp add: Cons.IH marks_loop_map nullish_def)
qed

lemma getGrades_reshaped:
  assumes "caches_grades st u = None"
  shows "fst (getGrades e st u s (Inr raw)) =
           Inr (map (reshaped_grade e (clock st)) (marks_in_order raw))"
proof -
  have "subjects_loop e (clock st) (nullish (subjects raw) []) [] =
          map (reshaped_grade e (clock st)) (marks_in_order raw)"
    by (simp add: subjects_loop_concat marks_in_order_def nullish_def map_concat o_def
          split: option.split)
  with assms show ?thesis
    by (simp add: getGrades_fulfilled)
qed

section \<open>The cached timetables\<close>

lemma lesson_entry_flags:
  "t_absent (lesson_entry e v) = (l_isCancelled v = Some True) \<and>
   t_cancelled (lesson_entry e v) = (l_isCancelled v = Some True)"
  by (cases "l_isCancelled v") (simp_all add: lesson_entry_def js_or_def truthy_boolean_def)

lemma timetable_resumed:
  assumes "caches_timetable (snd (getTimetable_resume e st u' r)) u = Some tt"
  shows "caches_timetable st u = Some tt \<or> (\<exists>raw. tt = map (lesson_entry e) raw)"
proof (cases r)
  case (Inl err)
  with assms show ?thesis
    by (simp add: getTimetable_resume_rejected)
next
  case (Inr raw)
  with assms show ?thesis
    by (auto simp: getTimetable_resume_fulfilled setTimeout_def split: if_splits)
qed

lemma timetable_untouched:
  "caches_timetable (snd (getSession_resume e st a h login)) = caches_timetable st"
  "caches_timetable (snd (getGrades_resume e st u g)) = caches_timetable st"
  "caches_timetable (snd (getHomeworks_resume e st u w)) = caches_timetable st"
  "caches_timetable (snd (getAverages_resume e st u v)) = caches_timetable st"
  "caches_timetable (library c st) = caches_timetable st"
proof -
  show "caches_timetable (snd (getSession_resume e st a h login)) = caches_timetable st"
    by (cases login)
      (simp_all add: getSession_resume_rejected getSession_resume_fulfilled setTimeout_def)
  show "caches_timetable (snd (getGrades_resume e st u g)) = caches_timetable st"
    by (cases g)
      (simp_all add: getGrades_resume_rejected getGrades_resume_fulfilled setTimeout_def)
  show "caches_timetable (snd (getHomeworks_resume e st u w)) = caches_timetable st"
    by (cases w)
      (simp_all add: getHomeworks_resume_rejected getHomeworks_resume_fulfilled setTimeout_def)
  show "caches_timetable (snd (getAverages_resume e st u v)) = caches_timetable st"
    by (cases v)
      (simp_all add: getAverages_resume_rejected getAverages_resume_fulfilled setTimeout_def)
  show "caches_timetable (library c st) = caches_timetable st"
    by (simp add: library_def)
qed

lemma timetable_step:
  assumes "caches_timetable (step e ev st) u = Some tt"
  shows "caches_timetable st u = Some tt \<or> (\<exists>raw. tt = map (lesson_entry e) raw)"
proof (cases ev)
  case (CallGetSession a created suffix login)
  with assms getSession_effect [of "DeleteTimetable u" e st a created suffix login]
  show ?thesis by simp
next
  case (CallGetGrades u' s r)
  with assms getGrades_effect [of e st u' s r "DeleteTimetable u"]
  show ?thesis by simp
next
  case (CallGetTimetable u' s r)
  show ?thesis
  proof (cases "caches_timetable st u'")
    case (Some cached)
    with assms show ?thesis
      by (simp add: CallGetTimetable getTimetable_hit)
  next
    case None
    with assms timetable_resumed [of e "library (TimetableFromIntervals s) st" u' r u tt]
    show ?thesis
      by (simp add: CallGetTimetable getTimetable_miss timetable_untouched)
  qed
next
  case (CallGetHomeworks u' s r)
  with assms getHomeworks_effect [of e st u' s r "DeleteTimetable u"]
  show ?thesis by simp
next
  case (CallGetAverages u' s r)
  with assms getAverages_effect [of e st u' s r "DeleteTimetable u"]
  show ?thesis by simp
next
  case (StartGetSession a created suffix)
  with assms getSession_start_effect [of st a created suffix "DeleteTimetable u"]
  show ?thesis by simp
next
  case (StartGetGrades u' s)
  with assms getGrades_start_effect [of st u' s "DeleteTimetable u"]
  show ?thesis by simp
next
  case (StartGetTimetable u' s)
  with assms getTimetable_start_effect [of st u' s "DeleteTimetable u"]
  show ?thesis by simp
next
  case (StartGetHomeworks u' s)
  with assms getHomeworks_start_effect [of st u' s "DeleteTimetable u"]
  show ?thesis by simp
next
  case (StartGetAverages u' s)
  with assms getAverages_start_effect [of st u' s "DeleteTimetable u"]
  show ?thesis by simp
next
  case (ResumeGetSession a h login)
  with assms show ?thesis by (simp add: timetable_untouched)
next
  case (ResumeGetGrades u' r)
  with assms show ?thesis by (simp add: timetable_untouched)
next
  case (ResumeGetTimetable u' r)
  with assms timetable_resumed [of e st u' r u tt] show ?thesis by simp
next
  case (ResumeGetHomeworks u' r)
  with assms show ?thesis by (simp add: timetable_untouched)
next
  case (ResumeGetAverages u' r)
  with assms show ?thesis by (simp add: timetable_untouched)
next
  case (Elapse d)
  with assms have "holds (DeleteTimetable u) (elapse d st)" by simp
  from same_entry_elapse [OF this] assms Elapse show ?thesis by simp
qed

lemma cached_timetable_flags:
  "reachable e st \<Longrightarrow> caches_timetable st u = Some tt \<Longrightarrow> l \<in> set tt \<Longrightarrow>
   t_absent l = t_cancelled l"
proof (induction arbitrary: u tt l rule: reachable.induct)
  case (loaded t0)
  then show ?case by (simp add: initial_state_def)
next
  case (after st ev)
  from timetable_step [OF after.prems(1)] show ?case
  proof
    assume "caches_timetable st u = Some tt"
    then show ?thesis using after.prems(2) by (rule after.IH)
  next
    assume "\<exists>raw. tt = map (lesson_entry e) raw"
    with after.prems(2) show ?thesis
      by (auto simp: lesson_entry_flags)
  qed
qed

section \<open>The helper script\<close>

lemma fst_catch_block: "fst (catch_block err out) = None"
  by (simp add: catch_block_def)

lemma snd_catch_block:
  "Err (''Error getting task lists: '' @ message err) \<in> set (snd (catch_block err out))"
  by (simp add: catch_block_def)

lemma getTaskListId_failed:
  "getTaskListId (Inl err) = catch_block err []"
  "getTaskListId (Inr None) = catch_block (TypeError ''forEach'') [Log ''Available Task Lists:'']"
  "getTaskListId (Inr (Some [])) = catch_block (TypeError ''id'') [Log ''Available Task Lists:'']"
  by (simp_all add: getTaskListId_def)

section \<open>What a fetched answer leaves in the state\<close>

lemma inserted_timer:
  assumes "undisturbed e f st" and "f \<noteq> SessionExpiry" and "\<not> holds f st" and "holds f st'"
    and "pending f st' = pending f st \<and> same_entry f st st' \<or>
         P \<and> pending f st' = pending f st @ [t]"
  shows "pending f st' = [t]"
proof -
  from assms(3,4) have "\<not> same_entry f st st'"
    using same_entry_holds [of f st st'] by auto
  with assms(5) have "pending f st' = pending f st @ [t]" by auto
  with no_timer [OF assms(1,2,3)] show ?thesis by simp
qed

lemma getGrades_pending:
  assumes "undisturbed e (DeleteGrades u) st" and "caches_grades st u = None"
  shows "pending (DeleteGrades u) (snd (getGrades e st u s (Inr raw))) = [clock st + timer_delay (cacheTtl e)]"
    and "holds (DeleteGrades u) (snd (getGrades e st u s (Inr raw)))"
    and "pending (DeleteGrades u) (snd (getGrades_resume e st u (Inr raw))) = [clock st + timer_delay (cacheTtl e)]"
    and "holds (DeleteGrades u) (snd (getGrades_resume e st u (Inr raw)))"
proof -
  let ?f = "DeleteGrades u" and ?st = "snd (getGrades e st u s (Inr raw))"
    and ?st' = "snd (getGrades_resume e st u (Inr raw))"
  show h: "holds ?f ?st"
    using assms(2) by (simp add: getGrades_fulfilled setTimeout_def)
  show "pending ?f ?st = [clock st + timer_delay (cacheTtl e)]"
    using assms(2) getGrades_effect [of e st u s "Inr raw" ?f]
    by (intro inserted_timer [OF assms(1) _ _ h]) auto
  show h': "holds ?f ?st'"
    by (simp add: getGrades_resume_fulfilled setTimeout_def)
  show "pending ?f ?st' = [clock st + timer_delay (cacheTtl e)]"
    using assms(2) getGrades_resume_effect [of e st u "Inr raw" ?f]
    by (intro inserted_timer [OF assms(1) _ _ h']) auto
qed

lemma getGrades_deleted_at:
  assumes "undisturbed e (DeleteGrades u) st" and "caches_grades st u = None"
  shows "deleted_at e (DeleteGrades u) (clock st + timer_delay (cacheTtl e))
           (snd (getGrades e st u s (Inr raw))) evs d"
    and "deleted_at e (DeleteGrades u) (clock st + timer_delay (cacheTtl e))
           (snd (getGrades_resume e st u (Inr raw))) evs d"
  using getGrades_pending [OF assms] by (simp_all add: scheduled_deletion)

lemma getTimetable_pending:
  assumes "undisturbed e (DeleteTimetable u) st" and "caches_timetable st u = None"
  shows "pending (DeleteTimetable u) (snd (getTimetable e st u s (Inr raw))) = [clock st + timer_delay (cacheTtl e)]"
    and "holds (DeleteTimetable u) (snd (getTimetable e st u s (Inr raw)))"
    and "pending (DeleteTimetable u) (snd (getTimetable_resume e st u (Inr raw))) = [clock st + timer_delay (cacheTtl e)]"
    and "holds (DeleteTimetable u) (snd (getTimetable_resume e st u (Inr raw)))"
proof -
  let ?f = "DeleteTimetable u" and ?st = "snd (getTimetable e st u s (Inr raw))"
    and ?st' = "snd (getTimetable_resume e st u (Inr raw))"
  show h: "holds ?f ?st"
    using assms(2) by (simp add: getTimetable_fulfilled setTimeout_def)
  show "pending ?f ?st = [clock st + timer_delay (cacheTtl e)]"
    using assms(2) getTimetable_effect [of e st u s "Inr raw" ?f]
    by (intro inserted_timer [OF assms(1) _ _ h]) auto
  show h': "holds ?f ?st'"
    by (simp add: getTimetable_resume_fulfilled setTimeout_def)
  show "pending ?f ?st' = [clock st + timer_delay (cacheTtl e)]"
    using assms(2) getTimetable_resume_effect [of e st u "Inr raw" ?f]
    by (intro inserted_timer [OF assms(1) _ _ h']) auto
qed

lemma getTimetable_deleted_at:
  assumes "undisturbed e (DeleteTimetable u) st" and "caches_timetable st u = None"
  shows "deleted_at e (DeleteTimetable u) (clock st + timer_delay (cacheTtl e))
           (snd (getTimetable e st u s (Inr raw))) evs d"
    and "deleted_at e (DeleteTimetable u) (clock st + timer_delay (cacheTtl e))
           (snd (getTimetable_resume e st u (Inr raw))) evs d"
  using getTimetable_pending [OF assms] by (simp_all add: scheduled_deletion)

lemma getHomeworks_pending:
  assumes "undisturbed e (DeleteHomeworks u) st" and "caches_homeworks st u = None"
  shows "pending (DeleteHomeworks u) (snd (getHomeworks e st u s (Inr raw))) = [clock st + timer_delay (cacheTtl e)]"
    and "holds (DeleteHomeworks u) (snd (getHomeworks e st u s (Inr raw)))"
    and "pending (DeleteHomeworks u) (snd (getHomeworks_resume e st u (Inr raw))) = [clock st + timer_delay (cacheTtl e)]"
    and "holds (DeleteHomeworks u) (snd (getHomeworks_resume e st u (Inr raw)))"
proof -
  let ?f = "DeleteHomeworks u" and ?st = "snd (getHomeworks e st u s (Inr raw))"
    and ?st' = "snd (getHomeworks_resume e st u (Inr raw))"
  show h: "holds ?f ?st"
    using assms(2) by (simp add: getHomeworks_fulfilled setTimeout_def)
  show "pending ?f ?st = [clock st + timer_delay (cacheTtl e)]"
    using assms(2) getHomeworks_effect [of e st u s "Inr raw" ?f]
    by (intro inserted_timer [OF assms(1) _ _ h]) auto
  show h': "holds ?f ?st'"
    by (simp add: getHomeworks_resume_fulfilled setTimeout_def)
  show "pending ?f ?st' = [clock st + timer_delay (cacheTtl e)]"
    using assms(2) getHomeworks_resume_effect [of e st u "Inr raw" ?f]
    by (intro inserted_timer [OF assms(1) _ _ h']) auto
qed

lemma getHomeworks_deleted_at:
  assumes "undisturbed e (DeleteHomeworks u) st" and "caches_homeworks st u = None"
  shows "deleted_at e (DeleteHomeworks u) (clock st + timer_delay (cacheTtl e))
           (snd (getHomeworks e st u s (Inr raw))) evs d"
    and "deleted_at e (DeleteHomeworks u) (clock st + timer_delay (cacheTtl e))
           (snd (getHomeworks_resume e st u (Inr raw))) evs d"
  using getHomeworks_pending [OF assms] by (simp_all add: scheduled_deletion)

lemma getAverages_pending:
  assumes "undisturbed e (DeleteAverages u) st" and "caches_averages st u = None"
  shows "pending (DeleteAverages u) (snd (getAverages e st u s (Inr raw))) = [clock st + timer_delay (cacheTtl e)]"
    and "holds (DeleteAverages u) (snd (getAverages e st u s (Inr raw)))"
    and "pending (DeleteAverages u) (snd (getAverages_resume e st u (Inr raw))) = [clock st + timer_delay (cacheTtl e)]"
    and "holds (DeleteAverages u) (snd (getAverages_resume e st u (Inr raw)))"
proof -
  let ?f = "DeleteAverages u" and ?st = "snd (getAverages e st u s (Inr raw))"
    and ?st' = "snd (getAverages_resume e st u (Inr raw))"
  show h: "holds ?f ?st"
    using assms(2) by (simp add: getAverages_fulfilled setTimeout_def)
  show "pending ?f ?st = [clock st + timer_delay (cacheTtl e)]"
    using assms(2) getAverages_effect [of e st u s "Inr raw" ?f]
    by (intro inserted_timer [OF assms(1) _ _ h]) auto
  show h': "holds ?f ?st'"
    by (simp add: getAverages_resume_fulfilled setTimeout_def)
  show "pending ?f ?st' = [clock st + timer_delay (cacheTtl e)]"
    using assms(2) getAverages_resume_effect [of e st u "Inr raw" ?f]
    by (intro inserted_timer [OF assms(1) _ _ h']) auto
qed

lemma getAverages_deleted_at:
  assumes "undisturbed e (DeleteAverages u) st" and "caches_averages st u = None"
  shows "deleted_at e (DeleteAverages u) (clock st + timer_delay (cacheTtl e))
           (snd (getAverages e st u s (Inr raw))) evs d"
    and "deleted_at e (DeleteAverages u) (clock st + timer_delay (cacheTtl e))
           (snd (getAverages_resume e st u (Inr raw))) evs d"
  using getAverages_pending [OF assms] by (simp_all add: scheduled_deletion)

lemma getSession_pending:
  assumes "undisturbed e (DeleteSession (acc_username a)) st"
    and "caches_sessions st (acc_username a) = None"
  shows "pending (DeleteSession (acc_username a))
           (snd (getSession e st a created suffix (Inr x))) =
         [clock st + timer_delay (accountTimeout e - 2 * 60 * 1000)]"
    and "holds (DeleteSession (acc_username a)) (snd (getSession e st a created suffix (Inr x)))"
    and "pending (DeleteSession (acc_username a))
           (snd (getSession_resume e st a created (Inr x))) =
         [clock st + timer_delay (accountTimeout e - 2 * 60 * 1000)]"
    and "holds (DeleteSession (acc_username a)) (snd (getSession_resume e st a created (Inr x)))"
proof -
  let ?f = "DeleteSession (acc_username a)"
    and ?st = "snd (getSession e st a created suffix (Inr x))"
    and ?st' = "snd (getSession_resume e st a created (Inr x))"
  show h: "holds ?f ?st"
    using assms(2) by (simp add: getSession_fulfilled setTimeout_def)
  show "pending ?f ?st = [clock st + timer_delay (accountTimeout e - 2 * 60 * 1000)]"
    using assms(2) getSession_effect [of ?f e st a created suffix "Inr x"]
    by (intro inserted_timer [OF assms(1) _ _ h]) auto
  show h': "holds ?f ?st'"
    by (simp add: getSession_resume_fulfilled setTimeout_def)
  show "pending ?f ?st' = [clock st + timer_delay (accountTimeout e - 2 * 60 * 1000)]"
    using assms(2) getSession_resume_effect [of ?f e st a created "Inr x"]
    by (intro inserted_timer [OF assms(1) _ _ h']) auto
qed

lemma getSession_deleted_at:
  assumes "undisturbed e (DeleteSession (acc_username a)) st"
    and "caches_sessions st (acc_username a) = None"
  shows "deleted_at e (DeleteSession (acc_username a))
           (clock st + timer_delay (accountTimeout e - 2 * 60 * 1000))
           (snd (getSession e st a created suffix (Inr x))) evs d"
    and "deleted_at e (DeleteSession (acc_username a))
           (clock st + timer_delay (accountTimeout e - 2 * 60 * 1000))
           (snd (getSession_resume e st a created (Inr x))) evs d"
  using getSession_pending [OF assms] by (simp_all add: scheduled_deletion)

lemma clock_calls:
  "clock (snd (getSession e st a created suffix login)) = clock st"
  "clock (snd (getGrades e st u s g)) = clock st"
  "clock (snd (getTimetable e st u s t)) = clock st"
  "clock (snd (getHomeworks e st u s h)) = clock st"
  "clock (snd (getAverages e st u s v)) = clock st"
  "clock (snd (getSession_start st a created suffix)) = clock st"
  "clock (snd (getSession_resume e st a created login)) = clock st"
  using getSession_effect [of "DeleteSession []" e st a created suffix login]
    getGrades_effect [of e st u s g] getTimetable_effect [of e st u s t]
    getHomeworks_effect [of e st u s h] getAverages_effect [of e st u s v]
    getSession_start_effect [of st a created suffix]
    getSession_resume_effect [of "DeleteSession []" e st a created login]
  by simp_all

lemma getSession_calls:
  "lib_calls (snd (getSession e st a created suffix login)) =
     (if caches_sessions st (acc_username a) = None
      then lib_calls st @ [CreateSessionHandle,
             LoginCredentials created (acc_url a) (acc_username a) (acc_password a)
               (''smartpronote-'' @ suffix)]
      else lib_calls st)"
proof (cases "caches_sessions st (acc_username a)")
  case None
  then show ?thesis
    by (cases login)
      (simp_all add: getSession_rejected getSession_fulfilled library_def setTimeout_def)
next
  case (Some cached)
  then show ?thesis by (simp add: getSession_hit)
qed

section \<open>The claims\<close>

text \<open>
  C1.  When the library call fails, \<open>getGrades\<close>, \<open>getTimetable\<close>, \<open>getHomeworks\<close>
  and \<open>getAverages\<close> leave their cache map as it was, so no entry is inserted for the
  username, and they register no timer.  The part of each function that runs after the
  failed call changes nothing at all, in whatever state it runs.
\<close>

theorem failure_leaves_cache_unchanged:
  "caches_grades (snd (getGrades e st u s (Inl err))) = caches_grades st \<and>
   timers (snd (getGrades e st u s (Inl err))) = timers st \<and>
   caches_timetable (snd (getTimetable e st u s (Inl err))) = caches_timetable st \<and>
   timers (snd (getTimetable e st u s (Inl err))) = timers st \<and>
   caches_homeworks (snd (getHomeworks e st u s (Inl err))) = caches_homeworks st \<and>
   timers (snd (getHomeworks e st u s (Inl err))) = timers st \<and>
   caches_averages (snd (getAverages e st u s (Inl err))) = caches_averages st \<and>
   timers (snd (getAverages e st u s (Inl err))) = timers st \<and>
   snd (getGrades_resume e st u (Inl err)) = st \<and>
   snd (getTimetable_resume e st u (Inl err)) = st \<and>
   snd (getHomeworks_resume e st u (Inl err)) = st \<and>
   snd (getAverages_resume e st u (Inl err)) = st"
proof -
  have "caches_grades (snd (getGrades e st u s (Inl err))) = caches_grades st \<and>
        timers (snd (getGrades e st u s (Inl err))) = timers st"
    by (cases "caches_grades st u") (simp_all add: getGrades_hit getGrades_rejected library_def)
  moreover
  have "caches_timetable (snd (getTimetable e st u s (Inl err))) = caches_timetable st \<and>
        timers (snd (getTimetable e st u s (Inl err))) = timers st"
    by (cases "caches_timetable st u")
      (simp_all add: getTimetable_hit getTimetable_rejected library_def)
  moreover
  have "caches_homeworks (snd (getHomeworks e st u s (Inl err))) = caches_homeworks st \<and>
        timers (snd (getHomeworks e st u s (Inl err))) = timers st"
    by (cases "caches_homeworks st u")
      (simp_all add: getHomeworks_hit getHomeworks_rejected library_def)
  moreover
  have "caches_averages (snd (getAverages e st u s (Inl err))) = caches_averages st \<and>
        timers (snd (getAverages e st u s (Inl err))) = timers st"
    by (cases "caches_averages st u")
      (simp_all add: getAverages_hit getAverages_rejected library_def)
  ultimately show ?thesis
    by (simp add: getGrades_resume_rejected getTimetable_resume_rejected
          getHomeworks_resume_rejected getAverages_resume_rejected)
qed

text \<open>
  C2.  On a cache miss, when the library call fails, each function is fulfilled with
  the empty result: the empty list for \<open>getGrades\<close>, \<open>getTimetable\<close> and
  \<open>getHomeworks\<close>, the averages \<open>0\<close> and \<open>0\<close> for \<open>getAverages\<close>.  The returned
  promise is not rejected.
\<close>

theorem failure_returns_empty:
  "(caches_grades st u = None \<longrightarrow> fst (getGrades e st u s (Inl err)) = Inr []) \<and>
   (caches_timetable st u = None \<longrightarrow> fst (getTimetable e st u s (Inl err)) = Inr []) \<and>
   (caches_homeworks st u = None \<longrightarrow> fst (getHomeworks e st u s (Inl err)) = Inr []) \<and>
   (caches_averages st u = None \<longrightarrow>
      fst (getAverages e st u s (Inl err)) = Inr \<lparr>av_value = Num 0, av_everyone = Num 0\<rparr>)"
  by (simp add: getGrades_rejected getTimetable_rejected getHomeworks_rejected
        getAverages_rejected)

theorem failure_returns_empty_witness:
  "caches_grades (initial_state 0) ''alice'' = None \<and>
   fst (getGrades example_env (initial_state 0) ''alice'' (SessionHandle 1)
          (Inl (Error ''timeout''))) = Inr [] \<and>
   caches_timetable (initial_state 0) ''alice'' = None \<and>
   fst (getTimetable example_env (initial_state 0) ''alice'' (SessionHandle 1)
          (Inl (Error ''timeout''))) = Inr [] \<and>
   caches_homeworks (initial_state 0) ''alice'' = None \<and>
   fst (getHomeworks example_env (initial_state 0) ''alice'' (SessionHandle 1)
          (Inl (Error ''timeout''))) = Inr [] \<and>
   caches_averages (initial_state 0) ''alice'' = None \<and>
   fst (getAverages example_env (initial_state 0) ''alice'' (SessionHandle 1)
          (Inl (Error ''timeout''))) = Inr \<lparr>av_value = Num 0, av_everyone = Num 0\<rparr>"
  using failure_returns_empty [of "initial_state 0" "''alice''" example_env "SessionHandle 1"
          "Error ''timeout''"]
  by (simp add: initial_state_def)

text \<open>
  C3, as stated, fails when two calls of the same function for the same username
  overlap.  Both calls miss the cache and call the library.  The entry that the second
  one inserts, at time \<open>1000\<close>, is deleted by the timer of the first one at time
  \<open>270000\<close>, that is \<open>269000\<close> milliseconds after its insertion, while \<open>cacheTtl\<close>
  is \<open>270000\<close>.  It fails as well when \<open>cacheTtl\<close> is more than the runtime's
  timers take: with \<open>cacheTtl = 2147483648\<close> the entry is deleted one millisecond
  after its insertion.
\<close>

theorem overlapping_calls_counterexample:
  "cacheTtl example_env = 270000 \<and>
   lib_calls (run example_env overlapping_grades (initial_state 0)) =
     [Gradebook (SessionHandle 1), Gradebook (SessionHandle 1)] \<and>
   clock (run example_env overlapping_grades (initial_state 0)) = 1000 \<and>
   caches_grades (run example_env overlapping_grades (initial_state 0)) ''alice'' \<noteq> None \<and>
   timers (run example_env overlapping_grades (initial_state 0)) =
     [\<lparr>due = 270000, callback = DeleteGrades ''alice''\<rparr>,
      \<lparr>due = 271000, callback = DeleteGrades ''alice''\<rparr>] \<and>
   clock (elapse 269000 (run example_env overlapping_grades (initial_state 0))) = 270000 \<and>
   caches_grades (elapse 269000 (run example_env overlapping_grades (initial_state 0)))
     ''alice'' = None \<and>
   \<not> deleted_at example_env (DeleteGrades ''alice'') (1000 + cacheTtl example_env)
        (run example_env overlapping_grades (initial_state 0)) [Elapse 269000] 0 \<and>
   cacheTtl slow_env = 2147483648 \<and>
   caches_grades (initial_state 0) ''alice'' = None \<and>
   caches_grades
     (snd (getGrades slow_env (initial_state 0) ''alice'' (SessionHandle 1)
             (Inr example_gradebook))) ''alice'' \<noteq> None \<and>
   clock
     (elapse 1 (snd (getGrades slow_env (initial_state 0) ''alice'' (SessionHandle 1)
                       (Inr example_gradebook)))) = 1 \<and>
   caches_grades
     (elapse 1 (snd (getGrades slow_env (initial_state 0) ''alice'' (SessionHandle 1)
                       (Inr example_gradebook)))) ''alice'' = None"
proof -
  define s3 where "s3 = run example_env (take 3 overlapping_grades) (initial_state 0)"
  define s5 where "s5 = run example_env overlapping_grades (initial_state 0)"
  have ttl: "cacheTtl example_env = 270000"
    by (simp add: cacheTtl_def example_env_def)
  have 3: "timers s3 = [\<lparr>due = 270000, callback = DeleteGrades ''alice''\<rparr>]"
    "clock s3 = 0"
    "lib_calls s3 = [Gradebook (SessionHandle 1), Gradebook (SessionHandle 1)]"
    unfolding s3_def
    by (simp_all add: overlapping_grades_def getGrades_start_def initial_state_def library_def
          getGrades_resume_fulfilled setTimeout_def timer_delay_def ttl)
  have 4: "timers (elapse 1000 s3) = [\<lparr>due = 270000, callback = DeleteGrades ''alice''\<rparr>]"
    "clock (elapse 1000 s3) = 1000"
    "lib_calls (elapse 1000 s3) = [Gradebook (SessionHandle 1), Gradebook (SessionHandle 1)]"
    by (simp_all add: timers_elapse clock_elapse lib_calls_elapse 3)
  have s5: "s5 = snd (getGrades_resume example_env (elapse 1000 s3) ''alice''
                        (Inr example_gradebook))"
    unfolding s3_def s5_def by (simp add: overlapping_grades_def)
  have 5: "timers s5 =
             [\<lparr>due = 270000, callback = DeleteGrades ''alice''\<rparr>,
              \<lparr>due = 271000, callback = DeleteGrades ''alice''\<rparr>]"
    "clock s5 = 1000"
    "lib_calls s5 = [Gradebook (SessionHandle 1), Gradebook (SessionHandle 1)]"
    "caches_grades s5 ''alice'' \<noteq> None"
    unfolding s5
    by (simp_all add: getGrades_resume_fulfilled setTimeout_def timer_delay_def 4 ttl)
  have p: "pending (DeleteGrades ''alice'') s5 = [270000, 271000]"
    by (simp add: pending_def 5)
  have 6: "clock (elapse 269000 s5) = 270000"
    by (simp add: clock_elapse 5)
  have h: "\<not> holds (DeleteGrades ''alice'') (elapse 269000 s5)"
    by (simp add: holds_elapse p 5)
  then have 7: "caches_grades (elapse 269000 s5) ''alice'' = None"
    by simp
  have "\<not> deleted_at example_env (DeleteGrades ''alice'') (1000 + cacheTtl example_env)
          s5 [Elapse 269000] 0"
    using h by (simp add: deleted_at_def ttl 6)
  define s where "s = snd (getGrades slow_env (initial_state 0) ''alice'' (SessionHandle 1)
                             (Inr example_gradebook))"
  have slow: "cacheTtl slow_env = 2147483648"
    by (simp add: cacheTtl_def slow_env_def)
  have miss: "caches_grades (initial_state 0) ''alice'' = None"
    and c0: "clock (initial_state 0) = 0" "timers (initial_state 0) = []"
    by (simp_all add: initial_state_def)
  have 8: "timers s = [\<lparr>due = 1, callback = DeleteGrades ''alice''\<rparr>]"
    "clock s = 0" "caches_grades s ''alice'' \<noteq> None"
    unfolding s_def
    by (simp_all add: getGrades_fulfilled miss setTimeout_def library_def timer_delay_def
          slow c0)
  have 9: "clock (elapse 1 s) = 1"
    by (simp add: clock_elapse 8)
  have "\<not> holds (DeleteGrades ''alice'') (elapse 1 s)"
    by (simp add: holds_elapse pending_def 8)
  then have 10: "caches_grades (elapse 1 s) ''alice'' = None"
    by simp
  from ttl 5 6 7 \<open>\<not> deleted_at example_env (DeleteGrades ''alice'') (1000 + cacheTtl example_env)
          s5 [Elapse 269000] 0\<close> slow miss 8 9 10
  show ?thesis
    unfolding s5_def s_def by simp
qed

text \<open>
  C3, amended.  An entry that \<open>getGrades\<close>, \<open>getTimetable\<close>, \<open>getHomeworks\<close> or
  \<open>getAverages\<close> inserts is deleted \<open>cacheTtl = config.refreshEvery - 30000\<close>
  milliseconds after its insertion, the same delay for the four caches, and until then
  it stays in the cache as it was inserted, whatever calls are made in between: no
  access extends or resets the delay.  This holds provided that \<open>cacheTtl\<close> is a delay
  that the runtime's timers take, from \<open>1\<close> to \<open>2147483647\<close> milliseconds, and that
  no call inserts an entry for the username while the cache holds one, before or after,
  which is so when no two calls of the same function for the same username overlap.
  The entry is inserted by a whole call or by the resumption of a call that overlaps
  with calls for other usernames or of other functions.
\<close>

theorem entry_deleted_after_cacheTtl:
  assumes "1 \<le> cacheTtl e" and "cacheTtl e \<le> 2147483647"
  shows
  "cacheTtl e = refreshEvery e - 30000 \<and>
   (undisturbed e (DeleteGrades u) st \<and> caches_grades st u = None \<longrightarrow>
      deleted_at e (DeleteGrades u) (clock st + cacheTtl e)
        (snd (getGrades e st u s (Inr g))) evs d \<and>
      deleted_at e (DeleteGrades u) (clock st + cacheTtl e)
        (snd (getGrades_resume e st u (Inr g))) evs d) \<and>
   (undisturbed e (DeleteTimetable u) st \<and> caches_timetable st u = None \<longrightarrow>
      deleted_at e (DeleteTimetable u) (clock st + cacheTtl e)
        (snd (getTimetable e st u s (Inr t))) evs d \<and>
      deleted_at e (DeleteTimetable u) (clock st + cacheTtl e)
        (snd (getTimetable_resume e st u (Inr t))) evs d) \<and>
   (undisturbed e (DeleteHomeworks u) st \<and> caches_homeworks st u = None \<longrightarrow>
      deleted_at e (DeleteHomeworks u) (clock st + cacheTtl e)
        (snd (getHomeworks e st u s (Inr h))) evs d \<and>
      deleted_at e (DeleteHomeworks u) (clock st + cacheTtl e)
        (snd (getHomeworks_resume e st u (Inr h))) evs d) \<and>
   (undisturbed e (DeleteAverages u) st \<and> caches_averages st u = None \<longrightarrow>
      deleted_at e (DeleteAverages u) (clock st + cacheTtl e)
        (snd (getAverages e st u s (Inr a))) evs d \<and>
      deleted_at e (DeleteAverages u) (clock st + cacheTtl e)
        (snd (getAverages_resume e st u (Inr a))) evs d)"
proof -
  have delay: "timer_delay (cacheTtl e) = cacheTtl e"
    using assms by (rule timer_delay_range)
  show ?thesis
  proof (intro conjI impI)
    show "cacheTtl e = refreshEvery e - 30000"
      by (simp add: cacheTtl_def)
  qed (use getGrades_deleted_at [of e u st] getTimetable_deleted_at [of e u st]
        getHomeworks_deleted_at [of e u st] getAverages_deleted_at [of e u st]
       in \<open>simp_all add: delay\<close>)
qed

theorem entry_deleted_after_cacheTtl_witness:
  "undisturbed example_env (DeleteGrades ''alice'') (initial_state 0) \<and>
   undisturbed example_env (DeleteTimetable ''alice'') (initial_state 0) \<and>
   undisturbed example_env (DeleteHomeworks ''alice'') (initial_state 0) \<and>
   undisturbed example_env (DeleteAverages ''alice'') (initial_state 0) \<and>
   cacheTtl example_env = 270000 \<and>
   1 \<le> cacheTtl example_env \<and>
   cacheTtl example_env \<le> 2147483647 \<and>
   caches_grades (initial_state 0) ''alice'' = None \<and>
   caches_timetable (initial_state 0) ''alice'' = None \<and>
   caches_homeworks (initial_state 0) ''alice'' = None \<and>
   caches_averages (initial_state 0) ''alice'' = None \<and>
   orderly example_env (DeleteGrades ''alice'') example_events grades_cached \<and>
   clock (run example_env example_events grades_cached) = 1000 \<and>
   caches_grades (run example_env example_events grades_cached) ''alice'' =
     caches_grades grades_cached ''alice'' \<and>
   caches_grades grades_cached ''alice'' \<noteq> None \<and>
   caches_grades (elapse 269000 (run example_env example_events grades_cached)) ''alice'' =
     None \<and>
   deleted_at example_env (DeleteGrades ''alice'') 270000 grades_cached example_events 269000 \<and>
   deleted_at example_env (DeleteTimetable ''alice'') 270000 timetable_cached
     example_events 269000 \<and>
   deleted_at example_env (DeleteHomeworks ''alice'') 270000 homeworks_cached
     example_events 269000 \<and>
   deleted_at example_env (DeleteAverages ''alice'') 270000 averages_cached
     example_events 269000"
proof -
  have u: "undisturbed example_env f (initial_state 0)" for f
    by (rule undisturbed.fresh)
  have ttl: "cacheTtl example_env = 270000"
    by (simp add: cacheTtl_def example_env_def)
  have miss: "caches_grades (initial_state 0) ''alice'' = None"
    "caches_timetable (initial_state 0) ''alice'' = None"
    "caches_homeworks (initial_state 0) ''alice'' = None"
    "caches_averages (initial_state 0) ''alice'' = None"
    and c0: "clock (initial_state 0) = 0"
    by (simp_all add: initial_state_def)
  have o: "orderly example_env (DeleteGrades ''alice'') example_events st" for st
    by (simp add: example_events_def)
  have clock: "clock (run example_env example_events st) = clock st + 1000" for st
    by (simp add: example_events_def clock_calls clock_elapse)
  have c1: "clock grades_cached = 0"
    by (simp add: grades_cached_def clock_calls c0)
  have range: "1 \<le> cacheTtl example_env" "cacheTtl example_env \<le> 2147483647"
    by (simp_all add: ttl)
  from entry_deleted_after_cacheTtl [OF range, of "''alice''" "initial_state 0"
         "SessionHandle 1" example_gradebook example_events 269000 example_lessons
         example_assignments example_overview] u miss
  have d: "deleted_at example_env (DeleteGrades ''alice'') 270000 grades_cached
             example_events 269000"
    "deleted_at example_env (DeleteTimetable ''alice'') 270000 timetable_cached
       example_events 269000"
    "deleted_at example_env (DeleteHomeworks ''alice'') 270000 homeworks_cached
       example_events 269000"
    "deleted_at example_env (DeleteAverages ''alice'') 270000 averages_cached
       example_events 269000"
    by (simp_all add: ttl c0 grades_cached_def timetable_cached_def homeworks_cached_def
          averages_cached_def)
  from d(1) o [of grades_cached] clock [of grades_cached] c1
  have "caches_grades (run example_env example_events grades_cached) ''alice'' =
          caches_grades grades_cached ''alice''"
    and "caches_grades grades_cached ''alice'' \<noteq> None"
    and "caches_grades (elapse 269000 (run example_env example_events grades_cached))
           ''alice'' = None"
    unfolding deleted_at_def by simp_all
  with u ttl miss d o [of grades_cached] clock [of grades_cached] c1 show ?thesis
    by simp
qed

text \<open>
  C4, as stated, fails when two calls of \<open>getSession\<close> for the same username
  overlap.  Both find no cached handle and log in.  The handle of the first one is
  cached at time \<open>0\<close>, its deletion is scheduled for \<open>1680000\<close>, and at time
  \<open>1000\<close> the second call replaces it.  The handle of the second one, whose deletion
  is scheduled for \<open>1681000\<close>, is deleted at \<open>1680000\<close>.  It fails as well when
  \<open>config.accountTimeout - 120000\<close> is more than the runtime's timers take: with
  \<open>config.accountTimeout = 2147603648\<close> the delay is \<open>2147483648\<close> and the handle
  is deleted one millisecond after the login.
\<close>

theorem overlapping_logins_counterexample:
  "caches_sessions (initial_state 0) ''alice'' = None \<and>
   caches_sessions
     (run example_env (take 3 overlapping_logins) (initial_state 0)) ''alice'' =
     Some (SessionHandle 1) \<and>
   pending (DeleteSession ''alice'')
     (run example_env (take 3 overlapping_logins) (initial_state 0)) = [1680000] \<and>
   clock (run example_env overlapping_logins (initial_state 0)) = 1000 \<and>
   caches_sessions (run example_env overlapping_logins (initial_state 0)) ''alice'' =
     Some (SessionHandle 2) \<and>
   pending (DeleteSession ''alice'') (run example_env overlapping_logins (initial_state 0)) =
     [1680000, 1681000] \<and>
   clock (elapse 1679000 (run example_env overlapping_logins (initial_state 0))) = 1680000 \<and>
   caches_sessions (elapse 1679000 (run example_env overlapping_logins (initial_state 0)))
     ''alice'' = None \<and>
   \<not> deleted_at example_env (DeleteSession ''alice'') 1681000
        (run example_env overlapping_logins (initial_state 0)) [Elapse 1679000] 0 \<and>
   accountTimeout slow_env - 120000 = 2147483648 \<and>
   caches_sessions
     (snd (getSession slow_env (initial_state 0) example_account (SessionHandle 1) ''p9q1z''
             (Inr ()))) ''alice'' = Some (SessionHandle 1) \<and>
   clock
     (elapse 1 (snd (getSession slow_env (initial_state 0) example_account (SessionHandle 1)
                       ''p9q1z'' (Inr ())))) = 1 \<and>
   caches_sessions
     (elapse 1 (snd (getSession slow_env (initial_state 0) example_account (SessionHandle 1)
                       ''p9q1z'' (Inr ())))) ''alice'' = None"
proof -
  define s3 where "s3 = run example_env (take 3 overlapping_logins) (initial_state 0)"
  define s5 where "s5 = run example_env overlapping_logins (initial_state 0)"
  have u: "acc_username example_account = ''alice''"
    by (simp add: example_account_def)
  have t: "accountTimeout example_env = 1800000"
    by (simp add: example_env_def)
  have 3: "timers s3 =
             [\<lparr>due = 1800000, callback = SessionExpiry\<rparr>,
              \<lparr>due = 1680000, callback = DeleteSession ''alice''\<rparr>]"
    "clock s3 = 0"
    "caches_sessions s3 ''alice'' = Some (SessionHandle 1)"
    unfolding s3_def
    by (simp_all add: overlapping_logins_def getSession_start_def initial_state_def library_def
          getSession_resume_fulfilled setTimeout_def timer_delay_def u t)
  have 4: "timers (elapse 1000 s3) =
             [\<lparr>due = 1800000, callback = SessionExpiry\<rparr>,
              \<lparr>due = 1680000, callback = DeleteSession ''alice''\<rparr>]"
    "clock (elapse 1000 s3) = 1000"
    by (simp_all add: timers_elapse clock_elapse 3)
  have s5: "s5 = snd (getSession_resume example_env (elapse 1000 s3) example_account
                        (SessionHandle 2) (Inr ()))"
    unfolding s3_def s5_def by (simp add: overlapping_logins_def)
  have 5: "timers s5 =
             [\<lparr>due = 1800000, callback = SessionExpiry\<rparr>,
              \<lparr>due = 1680000, callback = DeleteSession ''alice''\<rparr>,
              \<lparr>due = 1801000, callback = SessionExpiry\<rparr>,
              \<lparr>due = 1681000, callback = DeleteSession ''alice''\<rparr>]"
    "clock s5 = 1000"
    "caches_sessions s5 ''alice'' = Some (SessionHandle 2)"
    unfolding s5
    by (simp_all add: getSession_resume_fulfilled setTimeout_def timer_delay_def 4 u t)
  have p3: "pending (DeleteSession ''alice'') s3 = [1680000]"
    by (simp add: pending_def 3)
  have p: "pending (DeleteSession ''alice'') s5 = [1680000, 1681000]"
    by (simp add: pending_def 5)
  have 6: "clock (elapse 1679000 s5) = 1680000"
    by (simp add: clock_elapse 5)
  have h: "\<not> holds (DeleteSession ''alice'') (elapse 1679000 s5)"
    by (simp add: holds_elapse p 5)
  then have 7: "caches_sessions (elapse 1679000 s5) ''alice'' = None"
    by simp
  have 8: "\<not> deleted_at example_env (DeleteSession ''alice'') 1681000 s5 [Elapse 1679000] 0"
    using h by (simp add: deleted_at_def 6)
  define s where "s = snd (getSession slow_env (initial_state 0) example_account
                             (SessionHandle 1) ''p9q1z'' (Inr ()))"
  have slow: "accountTimeout slow_env = 2147603648"
    by (simp add: slow_env_def)
  have miss: "caches_sessions (initial_state 0) (acc_username example_account) = None"
    and c0: "clock (initial_state 0) = 0" "timers (initial_state 0) = []"
    by (simp_all add: initial_state_def)
  have 9: "timers s =
             [\<lparr>due = 1, callback = SessionExpiry\<rparr>,
              \<lparr>due = 1, callback = DeleteSession ''alice''\<rparr>]"
    "clock s = 0" "caches_sessions s ''alice'' = Some (SessionHandle 1)"
    unfolding s_def getSession_fulfilled [OF miss]
    by (simp_all add: setTimeout_def library_def timer_delay_def slow c0 u)
  have 10: "clock (elapse 1 s) = 1"
    by (simp add: clock_elapse 9)
  have "\<not> holds (DeleteSession ''alice'') (elapse 1 s)"
    by (simp add: holds_elapse pending_def 9)
  then have 11: "caches_sessions (elapse 1 s) ''alice'' = None"
    by simp
  from 3 p3 5 p 6 7 8 slow 9 10 11 show ?thesis
    unfolding s3_def s5_def s_def by (simp add: initial_state_def)
qed

text \<open>
  C4, amended.  While a session handle for the account's username is in the session
  cache, \<open>getSession\<close> returns it, and neither creates a session nor logs in: the
  state, with the list of the library calls, is unchanged.  A login is performed only
  when the cache has no handle for the username, and then always.  The handle of a
  successful login is cached under the username and stays there until its deletion,
  \<open>config.accountTimeout - 120000\<close> milliseconds after the login, provided that
  this delay is one that the runtime's timers take, from \<open>1\<close> to \<open>2147483647\<close>
  milliseconds, and that no call inserts a handle for the username while the cache
  holds one, before or after, which is so when no two calls of \<open>getSession\<close> for the
  same username overlap.
\<close>

theorem session_reused:
  "(caches_sessions st (acc_username a) = Some cached \<longrightarrow>
      getSession e st a created suffix login = (Inr cached, st)) \<and>
   (lib_calls (snd (getSession e st a created suffix login)) \<noteq> lib_calls st \<longrightarrow>
      caches_sessions st (acc_username a) = None) \<and>
   (caches_sessions st (acc_username a) = None \<longrightarrow>
      lib_calls (snd (getSession e st a created suffix login)) =
        lib_calls st @ [CreateSessionHandle,
          LoginCredentials created (acc_url a) (acc_username a) (acc_password a)
            (''smartpronote-'' @ suffix)]) \<and>
   (1 \<le> accountTimeout e - 120000 \<and> accountTimeout e - 120000 \<le> 2147483647 \<and>
    undisturbed e (DeleteSession (acc_username a)) st \<and>
    caches_sessions st (acc_username a) = None \<longrightarrow>
      fst (getSession e st a created suffix (Inr ())) = Inr created \<and>
      caches_sessions (snd (getSession e st a created suffix (Inr ()))) (acc_username a) =
        Some created \<and>
      deleted_at e (DeleteSession (acc_username a)) (clock st + (accountTimeout e - 120000))
        (snd (getSession e st a created suffix (Inr ()))) evs d \<and>
      deleted_at e (DeleteSession (acc_username a)) (clock st + (accountTimeout e - 120000))
        (snd (getSession_resume e st a created (Inr ()))) evs d)"
proof (intro conjI impI)
  assume "caches_sessions st (acc_username a) = Some cached"
  then show "getSession e st a created suffix login = (Inr cached, st)"
    by (rule getSession_hit)
next
  assume "lib_calls (snd (getSession e st a created suffix login)) \<noteq> lib_calls st"
  then show "caches_sessions st (acc_username a) = None"
    by (simp add: getSession_calls split: if_splits)
next
  assume "caches_sessions st (acc_username a) = None"
  then show "lib_calls (snd (getSession e st a created suffix login)) =
        lib_calls st @ [CreateSessionHandle,
          LoginCredentials created (acc_url a) (acc_username a) (acc_password a)
            (''smartpronote-'' @ suffix)]"
    by (simp add: getSession_calls)
next
  assume **: "1 \<le> accountTimeout e - 120000 \<and> accountTimeout e - 120000 \<le> 2147483647 \<and>
              undisturbed e (DeleteSession (acc_username a)) st \<and>
              caches_sessions st (acc_username a) = None"
  then have *: "undisturbed e (DeleteSession (acc_username a)) st \<and>
                caches_sessions st (acc_username a) = None"
    and delay: "timer_delay (accountTimeout e - 120000) = accountTimeout e - 120000"
    by (simp_all add: timer_delay_def)
  then show "fst (getSession e st a created suffix (Inr ())) = Inr created"
    by (simp add: getSession_fulfilled)
  from * show "caches_sessions (snd (getSession e st a created suffix (Inr ())))
                 (acc_username a) = Some created"
    by (simp add: getSession_fulfilled setTimeout_def)
  from * getSession_deleted_at(1) [of e a st created suffix "()" evs d]
  show "deleted_at e (DeleteSession (acc_username a)) (clock st + (accountTimeout e - 120000))
          (snd (getSession e st a created suffix (Inr ()))) evs d"
    by (simp add: delay)
  from * getSession_deleted_at(2) [of e a st created "()" evs d]
  show "deleted_at e (DeleteSession (acc_username a)) (clock st + (accountTimeout e - 120000))
          (snd (getSession_resume e st a created (Inr ()))) evs d"
    by (simp add: delay)
qed

theorem session_reused_witness:
  "1 \<le> accountTimeout example_env - 120000 \<and>
   accountTimeout example_env - 120000 \<le> 2147483647 \<and>
   undisturbed example_env (DeleteSession ''alice'') (initial_state 0) \<and>
   caches_sessions (initial_state 0) (acc_username example_account) = None \<and>
   fst (getSession example_env (initial_state 0) example_account (SessionHandle 1)
          ''p9q1z'' (Inr ())) = Inr (SessionHandle 1) \<and>
   lib_calls session_cached \<noteq> lib_calls (initial_state 0) \<and>
   lib_calls session_cached =
     [CreateSessionHandle,
      LoginCredentials (SessionHandle 1) ''https://demo.index-education.net/pronote''
        ''alice'' ''secret'' ''smartpronote-p9q1z''] \<and>
   caches_sessions session_cached (acc_username example_account) = Some (SessionHandle 1) \<and>
   getSession example_env session_cached example_account (SessionHandle 2) ''k2j4x''
     (Inr ()) = (Inr (SessionHandle 1), session_cached) \<and>
   deleted_at example_env (DeleteSession ''alice'') 1680000 session_cached
     [Elapse 1000, CallGetSession example_account (SessionHandle 2) ''k2j4x'' (Inr ())]
     1679000 \<and>
   orderly example_env (DeleteSession ''alice'')
     [Elapse 1000, CallGetSession example_account (SessionHandle 2) ''k2j4x'' (Inr ())]
     session_cached \<and>
   clock (run example_env
            [Elapse 1000, CallGetSession example_account (SessionHandle 2) ''k2j4x'' (Inr ())]
            session_cached) = 1000 \<and>
   caches_sessions
     (run example_env
        [Elapse 1000, CallGetSession example_account (SessionHandle 2) ''k2j4x'' (Inr ())]
        session_cached) ''alice'' = Some (SessionHandle 1) \<and>
   caches_sessions
     (elapse 1679000
        (run example_env
           [Elapse 1000, CallGetSession example_account (SessionHandle 2) ''k2j4x'' (Inr ())]
           session_cached)) ''alice'' = None"
proof -
  let ?evs = "[Elapse 1000, CallGetSession example_account (SessionHandle 2) ''k2j4x'' (Inr ())]"
  have s: "undisturbed example_env (DeleteSession ''alice'') (initial_state 0)"
    by (rule undisturbed.fresh)
  have miss: "caches_sessions (initial_state 0) (acc_username example_account) = None"
    by (simp add: initial_state_def)
  have u: "acc_username example_account = ''alice''"
    by (simp add: example_account_def)
  have t: "accountTimeout example_env = 1800000"
    by (simp add: example_env_def)
  have c0: "clock (initial_state 0) = 0" "lib_calls (initial_state 0) = []"
    by (simp_all add: initial_state_def)
  note first = session_reused [of "initial_state 0" example_account "SessionHandle 2"
      example_env "SessionHandle 1" "''p9q1z''" "Inr ()" ?evs 1679000,
      folded session_cached_def]
  from first s miss
  have a: "fst (getSession example_env (initial_state 0) example_account (SessionHandle 1)
                  ''p9q1z'' (Inr ())) = Inr (SessionHandle 1)"
    and b: "lib_calls session_cached =
              [CreateSessionHandle,
               LoginCredentials (SessionHandle 1) ''https://demo.index-education.net/pronote''
                 ''alice'' ''secret'' ''smartpronote-p9q1z'']"
    and c: "caches_sessions session_cached (acc_username example_account) = Some (SessionHandle 1)"
    and d: "deleted_at example_env (DeleteSession ''alice'') 1680000 session_cached ?evs 1679000"
    by (simp_all add: c0 t u example_account_def)
  from session_reused [of session_cached example_account "SessionHandle 1" example_env
         "SessionHandle 2" "''k2j4x''" "Inr ()"] c
  have e: "getSession example_env session_cached example_account (SessionHandle 2) ''k2j4x''
             (Inr ()) = (Inr (SessionHandle 1), session_cached)"
    by simp
  have c1: "clock session_cached = 0"
    using getSession_effect [of "DeleteSession ''alice''" example_env "initial_state 0"
            example_account "SessionHandle 1" "''p9q1z''" "Inr ()"] c0
    by (simp add: session_cached_def)
  have c2: "clock (run example_env ?evs session_cached) = 1000"
    using getSession_effect [of "DeleteSession ''alice''" example_env "elapse 1000 session_cached"
            example_account "SessionHandle 2" "''k2j4x''" "Inr ()"] c1
    by (simp add: clock_elapse)
  from d c2 c
  have f: "caches_sessions (run example_env ?evs session_cached) ''alice'' = Some (SessionHandle 1)"
    and g: "caches_sessions (elapse 1679000 (run example_env ?evs session_cached)) ''alice'' = None"
    unfolding deleted_at_def by (simp_all add: u)
  from s miss a b c d e c2 f g show ?thesis
    by (simp add: c0 t)
qed

text \<open>
  C5, as stated, fails when a third call of the same function for the same username
  overlaps with the first one.  The first call succeeds and its result is cached.  The
  overlapping call, which had missed the cache before, then resumes and replaces the
  entry.  The entry is never deleted, and the second call returns the result of the
  overlapping call, not that of the first call.
\<close>

theorem second_call_counterexample:
  "fst (getGrades example_env
          (step example_env (StartGetGrades ''alice'' (SessionHandle 2)) (initial_state 0))
          ''alice'' (SessionHandle 1) (Inr example_gradebook)) =
     Inr [\<lparr>g_subject = ''Maths'', g_average = Num 12, g_coefficient = Num 1,
           g_comment = ''Controle'', g_date = 1700000000000, g_best = Num 20,
           g_worst = Num 3, g_scale = Num 20, g_value = Num 0,
           g_hash = ''Maths/Controle''\<rparr>] \<and>
   present_throughout example_env (DeleteGrades ''alice'') [late_answer]
     grades_cached_meanwhile \<and>
   getGrades example_env (run example_env [late_answer] grades_cached_meanwhile) ''alice''
     (SessionHandle 1) (Inr example_gradebook) =
   (Inr [], run example_env [late_answer] grades_cached_meanwhile)"
proof -
  have miss: "caches_grades
                (step example_env (StartGetGrades ''alice'' (SessionHandle 2)) (initial_state 0))
                ''alice'' = None"
    by (simp add: getGrades_start_def initial_state_def library_def)
  have 1: "fst (getGrades example_env
                  (step example_env (StartGetGrades ''alice'' (SessionHandle 2)) (initial_state 0))
                  ''alice'' (SessionHandle 1) (Inr example_gradebook)) =
             Inr [\<lparr>g_subject = ''Maths'', g_average = Num 12, g_coefficient = Num 1,
                   g_comment = ''Controle'', g_date = 1700000000000, g_best = Num 20,
                   g_worst = Num 3, g_scale = Num 20, g_value = Num 0,
                   g_hash = ''Maths/Controle''\<rparr>]"
    using getGrades_reshaped [OF miss, of example_env "SessionHandle 1" example_gradebook]
    by (simp add: marks_in_order_def example_gradebook_def example_mark_def example_env_def
          reshaped_grade_def number_or_def string_or_def copied_def translated_def Let_def)
  have 2: "holds (DeleteGrades ''alice'') grades_cached_meanwhile"
    unfolding grades_cached_meanwhile_def
    using miss by (simp add: getGrades_fulfilled setTimeout_def)
  have 3: "caches_grades (run example_env [late_answer] grades_cached_meanwhile) ''alice'' =
             Some []"
    by (simp add: late_answer_def getGrades_resume_fulfilled setTimeout_def nullish_def)
  from 3 have "getGrades example_env (run example_env [late_answer] grades_cached_meanwhile)
                 ''alice'' (SessionHandle 1) (Inr example_gradebook) =
               (Inr [], run example_env [late_answer] grades_cached_meanwhile)"
    by (rule getGrades_hit)
  with 1 2 3 show ?thesis
    by simp
qed

text \<open>
  C5, amended.  After a successful call of \<open>getGrades\<close>, \<open>getTimetable\<close>,
  \<open>getHomeworks\<close> or \<open>getAverages\<close> the result is in the cache.  A second call of
  the same function for the same username, made while the entry of the first call is in
  the cache, returns the result of the first call and leaves the state as it is, the
  list of the library calls included: it calls the library no more.  The entry of the
  first call is in the cache before the entry is deleted, provided that no overlapping
  call of the same function for the same username has resumed in between and inserted
  its own result: through all other events the entry stays as it is until it is deleted.
\<close>

theorem second_call_cached:
  "(getGrades e st u s (Inr g) = (rg, stg) \<longrightarrow>
      holds (DeleteGrades u) stg \<and>
      (same_entry (DeleteGrades u) stg st2 \<longrightarrow> getGrades e st2 u s' g' = (rg, st2)) \<and>
      (present_throughout e (DeleteGrades u) evs stg \<and>
       orderly e (DeleteGrades u) evs stg \<longrightarrow>
         getGrades e (run e evs stg) u s' g' = (rg, run e evs stg))) \<and>
   (getTimetable e st u s (Inr t) = (rt, stt) \<longrightarrow>
      holds (DeleteTimetable u) stt \<and>
      (same_entry (DeleteTimetable u) stt st2 \<longrightarrow> getTimetable e st2 u s' t' = (rt, st2)) \<and>
      (present_throughout e (DeleteTimetable u) evs stt \<and>
       orderly e (DeleteTimetable u) evs stt \<longrightarrow>
         getTimetable e (run e evs stt) u s' t' = (rt, run e evs stt))) \<and>
   (getHomeworks e st u s (Inr h) = (rh, sth) \<longrightarrow>
      holds (DeleteHomeworks u) sth \<and>
      (same_entry (DeleteHomeworks u) sth st2 \<longrightarrow> getHomeworks e st2 u s' h' = (rh, st2)) \<and>
      (present_throughout e (DeleteHomeworks u) evs sth \<and>
       orderly e (DeleteHomeworks u) evs sth \<longrightarrow>
         getHomeworks e (run e evs sth) u s' h' = (rh, run e evs sth))) \<and>
   (getAverages e st u s (Inr a) = (ra, sta) \<longrightarrow>
      holds (DeleteAverages u) sta \<and>
      (same_entry (DeleteAverages u) sta st2 \<longrightarrow> getAverages e st2 u s' a' = (ra, st2)) \<and>
      (present_throughout e (DeleteAverages u) evs sta \<and>
       orderly e (DeleteAverages u) evs sta \<longrightarrow>
         getAverages e (run e evs sta) u s' a' = (ra, run e evs sta)))"
proof (intro conjI impI)
  assume 1: "getGrades e st u s (Inr g) = (rg, stg)"
  have "\<exists>v. rg = Inr v \<and> caches_grades stg u = Some v"
    using 1 by (cases "caches_grades st u")
      (auto simp: getGrades_fulfilled getGrades_hit setTimeout_def)
  then obtain v where v: "rg = Inr v" "caches_grades stg u = Some v" by blast
  then show "holds (DeleteGrades u) stg" by simp
  show "getGrades e st2 u s' g' = (rg, st2)" if "same_entry (DeleteGrades u) stg st2"
    using that v by (simp add: getGrades_hit)
  show "getGrades e (run e evs stg) u s' g' = (rg, run e evs stg)"
    if "present_throughout e (DeleteGrades u) evs stg \<and>
        orderly e (DeleteGrades u) evs stg"
    using unchanged_run [of e "DeleteGrades u" evs stg] that v by (simp add: getGrades_hit)
next
  assume 1: "getTimetable e st u s (Inr t) = (rt, stt)"
  have "\<exists>v. rt = Inr v \<and> caches_timetable stt u = Some v"
    using 1 by (cases "caches_timetable st u")
      (auto simp: getTimetable_fulfilled getTimetable_hit setTimeout_def)
  then obtain v where v: "rt = Inr v" "caches_timetable stt u = Some v" by blast
  then show "holds (DeleteTimetable u) stt" by simp
  show "getTimetable e st2 u s' t' = (rt, st2)" if "same_entry (DeleteTimetable u) stt st2"
    using that v by (simp add: getTimetable_hit)
  show "getTimetable e (run e evs stt) u s' t' = (rt, run e evs stt)"
    if "present_throughout e (DeleteTimetable u) evs stt \<and>
        orderly e (DeleteTimetable u) evs stt"
    using unchanged_run [of e "DeleteTimetable u" evs stt] that v by (simp add: getTimetable_hit)
next
  assume 1: "getHomeworks e st u s (Inr h) = (rh, sth)"
  have "\<exists>v. rh = Inr v \<and> caches_homeworks sth u = Some v"
    using 1 by (cases "caches_homeworks st u")
      (auto simp: getHomeworks_fulfilled getHomeworks_hit setTimeout_def)
  then obtain v where v: "rh = Inr v" "caches_homeworks sth u = Some v" by blast
  then show "holds (DeleteHomeworks u) sth" by simp
  show "getHomeworks e st2 u s' h' = (rh, st2)" if "same_entry (DeleteHomeworks u) sth st2"
    using that v by (simp add: getHomeworks_hit)
  show "getHomeworks e (run e evs sth) u s' h' = (rh, run e evs sth)"
    if "present_throughout e (DeleteHomeworks u) evs sth \<and>
        orderly e (DeleteHomeworks u) evs sth"
    using unchanged_run [of e "DeleteHomeworks u" evs sth] that v by (simp add: getHomeworks_hit)
next
  assume 1: "getAverages e st u s (Inr a) = (ra, sta)"
  have "\<exists>v. ra = Inr v \<and> caches_averages sta u = Some v"
    using 1 by (cases "caches_averages st u")
      (auto simp: getAverages_fulfilled getAverages_hit setTimeout_def)
  then obtain v where v: "ra = Inr v" "caches_averages sta u = Some v" by blast
  then show "holds (DeleteAverages u) sta" by simp
  show "getAverages e st2 u s' a' = (ra, st2)" if "same_entry (DeleteAverages u) sta st2"
    using that v by (simp add: getAverages_hit)
  show "getAverages e (run e evs sta) u s' a' = (ra, run e evs sta)"
    if "present_throughout e (DeleteAverages u) evs sta \<and>
        orderly e (DeleteAverages u) evs sta"
    using unchanged_run [of e "DeleteAverages u" evs sta] that v by (simp add: getAverages_hit)
qed

theorem second_call_cached_witness:
  "present_throughout example_env (DeleteGrades ''alice'') example_events grades_cached \<and>
   orderly example_env (DeleteGrades ''alice'') example_events grades_cached \<and>
   getGrades example_env (run example_env example_events grades_cached) ''alice''
       (SessionHandle 2) (Inl (Error ''timeout'')) =
     (fst (getGrades example_env (initial_state 0) ''alice'' (SessionHandle 1)
             (Inr example_gradebook)),
      run example_env example_events grades_cached) \<and>
   present_throughout example_env (DeleteTimetable ''alice'') example_events timetable_cached \<and>
   orderly example_env (DeleteTimetable ''alice'') example_events timetable_cached \<and>
   getTimetable example_env (run example_env example_events timetable_cached) ''alice''
       (SessionHandle 2) (Inl (Error ''timeout'')) =
     (fst (getTimetable example_env (initial_state 0) ''alice'' (SessionHandle 1)
             (Inr example_lessons)),
      run example_env example_events timetable_cached) \<and>
   present_throughout example_env (DeleteHomeworks ''alice'') example_events homeworks_cached \<and>
   orderly example_env (DeleteHomeworks ''alice'') example_events homeworks_cached \<and>
   getHomeworks example_env (run example_env example_events homeworks_cached) ''alice''
       (SessionHandle 2) (Inl (Error ''timeout'')) =
     (fst (getHomeworks example_env (initial_state 0) ''alice'' (SessionHandle 1)
             (Inr example_assignments)),
      run example_env example_events homeworks_cached) \<and>
   present_throughout example_env (DeleteAverages ''alice'') example_events averages_cached \<and>
   orderly example_env (DeleteAverages ''alice'') example_events averages_cached \<and>
   getAverages example_env (run example_env example_events averages_cached) ''alice''
       (SessionHandle 2) (Inl (Error ''timeout'')) =
     (fst (getAverages example_env (initial_state 0) ''alice'' (SessionHandle 1)
             (Inr example_overview)),
      run example_env example_events averages_cached)"
proof -
  have s: "undisturbed example_env f (initial_state 0)" for f
    by (rule undisturbed.fresh)
  have o: "orderly example_env (DeleteGrades ''alice'') example_events st"
    "orderly example_env (DeleteTimetable ''alice'') example_events st"
    "orderly example_env (DeleteHomeworks ''alice'') example_events st"
    "orderly example_env (DeleteAverages ''alice'') example_events st" for st
    by (simp_all add: example_events_def)
  have miss: "caches_grades (initial_state 0) ''alice'' = None"
    "caches_timetable (initial_state 0) ''alice'' = None"
    "caches_homeworks (initial_state 0) ''alice'' = None"
    "caches_averages (initial_state 0) ''alice'' = None"
    and c0: "clock (initial_state 0) = 0"
    by (simp_all add: initial_state_def)
  have ttl: "cacheTtl example_env = 270000"
    by (simp add: cacheTtl_def example_env_def)
  have clock: "clock (run example_env example_events st) = clock st + 1000" for st
    by (simp add: example_events_def clock_calls clock_elapse)
  have c1: "clock grades_cached = 0" "clock timetable_cached = 0"
    "clock homeworks_cached = 0" "clock averages_cached = 0"
    by (simp_all add: grades_cached_def timetable_cached_def homeworks_cached_def
          averages_cached_def clock_calls c0)
  have pg: "present_throughout example_env (DeleteGrades ''alice'') example_events grades_cached"
    using getGrades_pending(1,2) [OF s miss(1), of "SessionHandle 1" example_gradebook]
    unfolding grades_cached_def [symmetric]
    by (intro present_while_early [where b = 270000])
      (simp_all add: c0 ttl clock c1 o timer_delay_def)
  have pt: "present_throughout example_env (DeleteTimetable ''alice'') example_events
              timetable_cached"
    using getTimetable_pending(1,2) [OF s miss(2), of "SessionHandle 1" example_lessons]
    unfolding timetable_cached_def [symmetric]
    by (intro present_while_early [where b = 270000])
      (simp_all add: c0 ttl clock c1 o timer_delay_def)
  have ph: "present_throughout example_env (DeleteHomeworks ''alice'') example_events
              homeworks_cached"
    using getHomeworks_pending(1,2) [OF s miss(3), of "SessionHandle 1" example_assignments]
    unfolding homeworks_cached_def [symmetric]
    by (intro present_while_early [where b = 270000])
      (simp_all add: c0 ttl clock c1 o timer_delay_def)
  have pa: "present_throughout example_env (DeleteAverages ''alice'') example_events
              averages_cached"
    using getAverages_pending(1,2) [OF s miss(4), of "SessionHandle 1" example_overview]
    unfolding averages_cached_def [symmetric]
    by (intro present_while_early [where b = 270000])
      (simp_all add: c0 ttl clock c1 o timer_delay_def)
  from second_call_cached [where e = example_env and st = "initial_state 0" and u = "''alice''"
      and s = "SessionHandle 1" and s' = "SessionHandle 2" and evs = example_events
      and ?st2.0 = "initial_state 0"
      and g = example_gradebook and g' = "Inl (Error ''timeout'')" and stg = grades_cached
      and rg = "fst (getGrades example_env (initial_state 0) ''alice'' (SessionHandle 1)
                       (Inr example_gradebook))"
      and t = example_lessons and t' = "Inl (Error ''timeout'')" and stt = timetable_cached
      and rt = "fst (getTimetable example_env (initial_state 0) ''alice'' (SessionHandle 1)
                       (Inr example_lessons))"
      and h = example_assignments and h' = "Inl (Error ''timeout'')" and sth = homeworks_cached
      and rh = "fst (getHomeworks example_env (initial_state 0) ''alice'' (SessionHandle 1)
                       (Inr example_assignments))"
      and a = example_overview and a' = "Inl (Error ''timeout'')" and sta = averages_cached
      and ra = "fst (getAverages example_env (initial_state 0) ''alice'' (SessionHandle 1)
                       (Inr example_overview))"]
    pg pt ph pa o
  show ?thesis
    by (simp add: grades_cached_def timetable_cached_def homeworks_cached_def
          averages_cached_def)
qed

text \<open>
  C6, as stated, fails: a mark whose coefficient is \<open>0\<close> is present, and the grade
  returned for it has the coefficient \<open>1\<close>, not a copy.  The default of the date is
  not fixed either: a mark without a date gets the time at which the entries are built,
  so the same response gives the date \<open>0\<close> when the call resumes at time \<open>0\<close> and
  the date \<open>5\<close> when it resumes at time \<open>5\<close>.
\<close>

theorem grades_copied_counterexample:
  "caches_grades (initial_state 0) ''alice'' = None \<and>
   marks_in_order example_gradebook =
     [(\<lparr>s_name = ''MATHEMATIQUES'', s_grades = Some [example_mark]\<rparr>, example_mark)] \<and>
   m_coefficient example_mark = Some (Num 0) \<and>
   fst (getGrades example_env (initial_state 0) ''alice'' (SessionHandle 1)
          (Inr example_gradebook)) =
     Inr [\<lparr>g_subject = ''Maths'', g_average = Num 12, g_coefficient = Num 1,
           g_comment = ''Controle'', g_date = 1700000000000, g_best = Num 20,
           g_worst = Num 3, g_scale = Num 20, g_value = Num 0,
           g_hash = ''Maths/Controle''\<rparr>] \<and>
   fst (getGrades example_env (initial_state 0) ''alice'' (SessionHandle 1)
          (Inr example_gradebook)) \<noteq>
     Inr (map (copied_grade example_env 0) (marks_in_order example_gradebook)) \<and>
   m_date (example_mark\<lparr>m_date := None\<rparr>) = None \<and>
   clock (initial_state 0) = 0 \<and>
   map g_date
     (projr (fst (getGrades example_env (initial_state 0) ''alice'' (SessionHandle 1)
                    (Inr undated_gradebook)))) = [0] \<and>
   clock (initial_state 5) = 5 \<and>
   map g_date
     (projr (fst (getGrades example_env (initial_state 5) ''alice'' (SessionHandle 1)
                    (Inr undated_gradebook)))) = [5] \<and>
   map g_date
     (projr (fst (getGrades_resume example_env (initial_state 5) ''alice''
                    (Inr undated_gradebook)))) = [5] \<and>
   fst (getGrades example_env (initial_state 5) ''alice'' (SessionHandle 1)
          (Inr undated_gradebook)) \<noteq>
     fst (getGrades example_env (initial_state 0) ''alice'' (SessionHandle 1)
            (Inr undated_gradebook))"
  by (simp add: getGrades_resume_fulfilled undated_gradebook_def reshaped_grade_def
        number_or_def string_or_def translated_def property_key_def
        getGrades_fulfilled initial_state_def example_gradebook_def example_mark_def
        example_env_def marks_in_order_def copied_grade_def copied_def nullish_def Let_def
        js_or_def grade_fields.defs Grade.defs truthy_string_def truthy_object_def)

text \<open>
  C6, amended.  For every successful gradebook response that is fetched, \<open>getGrades\<close>
  returns exactly one entry per mark of each subject, in traversal order, so that no
  mark is dropped, merged or reordered.  Each entry is a function of its mark, its
  subject and the time at which the call resumes with the response and builds the
  entries: the subject name translated through \<open>SubjectNames\<close>; average, coefficient,
  comment, best, worst, scale and value copied, with a fixed default for a value that is
  missing or falsy (\<open>0\<close>, \<open>NaN\<close>, the empty string); the date copied, and when the
  mark has none, that time, \<open>new Date()\<close>, which is no fixed value; and the hash of
  those fields.  In a whole call the time of the resumption is the time of the call; in
  a call that overlaps with others it is the time of the state in which it resumes.
\<close>

theorem grades_reshaped:
  assumes "caches_grades st u = None"
  shows "fst (getGrades e st u s (Inr raw)) =
           Inr (map (reshaped_grade e (clock st)) (marks_in_order raw)) \<and>
         fst (getGrades_resume e resumed u (Inr raw)) =
           Inr (map (reshaped_grade e (clock resumed)) (marks_in_order raw)) \<and>
         length (marks_in_order raw) =
           (\<Sum>subject \<leftarrow> (case subjects raw of None \<Rightarrow> [] | Some ss \<Rightarrow> ss).
              length (case s_grades subject of None \<Rightarrow> [] | Some marks \<Rightarrow> marks)) \<and>
         g_date (reshaped_grade e now (subject, mark)) =
           (case m_date mark of None \<Rightarrow> now | Some date \<Rightarrow> date)"
proof (intro conjI)
  have loop: "subjects_loop e t (nullish (subjects raw) []) [] =
                map (reshaped_grade e t) (marks_in_order raw)" for t
    by (simp add: subjects_loop_concat marks_in_order_def nullish_def map_concat o_def
          split: option.split)
  from loop [of "clock st"] assms
  show "fst (getGrades e st u s (Inr raw)) =
          Inr (map (reshaped_grade e (clock st)) (marks_in_order raw))"
    by (simp add: getGrades_fulfilled)
  from loop [of "clock resumed"]
  show "fst (getGrades_resume e resumed u (Inr raw)) =
          Inr (map (reshaped_grade e (clock resumed)) (marks_in_order raw))"
    by (simp add: getGrades_resume_fulfilled)
  show "length (marks_in_order raw) =
          (\<Sum>subject \<leftarrow> (case subjects raw of None \<Rightarrow> [] | Some ss \<Rightarrow> ss).
             length (case s_grades subject of None \<Rightarrow> [] | Some marks \<Rightarrow> marks))"
    by (simp add: marks_in_order_def length_concat o_def)
  show "g_date (reshaped_grade e now (subject, mark)) =
          (case m_date mark of None \<Rightarrow> now | Some date \<Rightarrow> date)"
    by (simp add: reshaped_grade_def copied_def Let_def split: option.split)
qed

theorem grades_reshaped_witness:
  "caches_grades (initial_state 5) ''alice'' = None \<and>
   clock (initial_state 5) = 5 \<and>
   clock (elapse 2 (initial_state 5)) = 7 \<and>
   fst (getGrades example_env (initial_state 5) ''alice'' (SessionHandle 1)
          (Inr example_gradebook)) =
     Inr [reshaped_grade example_env 5
            (\<lparr>s_name = ''MATHEMATIQUES'', s_grades = Some [example_mark]\<rparr>, example_mark)] \<and>
   fst (getGrades_resume example_env (elapse 2 (initial_state 5)) ''alice''
          (Inr example_gradebook)) =
     Inr [reshaped_grade example_env 7
            (\<lparr>s_name = ''MATHEMATIQUES'', s_grades = Some [example_mark]\<rparr>, example_mark)] \<and>
   g_date (reshaped_grade example_env 5
             (\<lparr>s_name = ''MATHEMATIQUES'', s_grades = Some [example_mark]\<rparr>, example_mark)) =
     1700000000000 \<and>
   g_date (reshaped_grade example_env 5
             (\<lparr>s_name = ''HISTOIRE'', s_grades = Some [example_mark\<lparr>m_date := None\<rparr>]\<rparr>,
              example_mark\<lparr>m_date := None\<rparr>)) = 5"
proof -
  have miss: "caches_grades (initial_state 5) ''alice'' = None"
    and c5: "clock (initial_state 5) = 5"
    by (simp_all add: initial_state_def)
  have c: "clock (elapse 2 (initial_state 5)) = 7"
    by (simp add: clock_elapse c5)
  have m: "m_date example_mark = Some 1700000000000"
    by (simp add: example_mark_def)
  from grades_reshaped [of "initial_state 5" "''alice''" example_env "SessionHandle 1"
         example_gradebook "elapse 2 (initial_state 5)" 5
         "\<lparr>s_name = ''MATHEMATIQUES'', s_grades = Some [example_mark]\<rparr>" example_mark]
       grades_reshaped [of "initial_state 5" "''alice''" example_env "SessionHandle 1"
         example_gradebook "elapse 2 (initial_state 5)" 5
         "\<lparr>s_name = ''HISTOIRE'', s_grades = Some [example_mark\<lparr>m_date := None\<rparr>]\<rparr>"
         "example_mark\<lparr>m_date := None\<rparr>"]
  show ?thesis
    by (simp add: miss c5 marks_in_order_def example_gradebook_def c m)
qed

text \<open>
  C7.  \<open>getTaskListId\<close> returns the identifier of the list titled \<open>@default\<close> when
  the answer has one (the first of them), and otherwise the identifier of the first
  list of the answer.  When something fails -- before the answer arrives, or because
  the answer has no list -- it writes an error message to the console and returns
  \<open>undefined\<close>.
\<close>

theorem getTaskListId_result:
  "(find (\<lambda>l. tl_title l = ''@default'') items = Some l \<longrightarrow>
      l \<in> set items \<and> tl_title l = ''@default'' \<and>
      fst (getTaskListId (Inr (Some items))) = Some (tl_id l)) \<and>
   ((\<exists>l \<in> set items. tl_title l = ''@default'') \<longrightarrow>
      find (\<lambda>l. tl_title l = ''@default'') items \<noteq> None) \<and>
   ((\<forall>l \<in> set items. tl_title l \<noteq> ''@default'') \<and> items = first # rest \<longrightarrow>
      fst (getTaskListId (Inr (Some items))) = Some (tl_id first)) \<and>
   fst (getTaskListId (Inl err)) = None \<and>
   Err (''Error getting task lists: '' @ message err) \<in> set (snd (getTaskListId (Inl err))) \<and>
   fst (getTaskListId (Inr None)) = None \<and>
   Err (''Error getting task lists: '' @ message (TypeError ''forEach''))
     \<in> set (snd (getTaskListId (Inr None))) \<and>
   fst (getTaskListId (Inr (Some []))) = None \<and>
   Err (''Error getting task lists: '' @ message (TypeError ''id''))
     \<in> set (snd (getTaskListId (Inr (Some []))))"
proof -
  let ?P = "\<lambda>l. tl_title l = ''@default''"
  have 1: "l \<in> set items \<and> tl_title l = ''@default'' \<and>
           fst (getTaskListId (Inr (Some items))) = Some (tl_id l)"
    if "find ?P items = Some l"
  proof -
    from that have "l \<in> set items" and "tl_title l = ''@default''"
      by (auto simp: find_Some_iff)
    with that show ?thesis
      by (simp add: getTaskListId_def Let_def)
  qed
  have 2: "find ?P items \<noteq> None" if "\<exists>l \<in> set items. tl_title l = ''@default''"
    using that by (auto simp: find_None_iff)
  have 3: "fst (getTaskListId (Inr (Some items))) = Some (tl_id first)"
    if "\<forall>l \<in> set items. tl_title l \<noteq> ''@default''" and "items = first # rest"
  proof -
    from that(1) have "find ?P items = None"
      by (simp add: find_None_iff)
    with that(2) show ?thesis
      by (simp add: getTaskListId_def Let_def)
  qed
  have 4: "fst (getTaskListId (Inl err)) = None"
    "Err (''Error getting task lists: '' @ message err) \<in> set (snd (getTaskListId (Inl err)))"
    unfolding getTaskListId_failed by (rule fst_catch_block, rule snd_catch_block)
  have 5: "fst (getTaskListId (Inr None)) = None"
    "Err (''Error getting task lists: '' @ message (TypeError ''forEach''))
       \<in> set (snd (getTaskListId (Inr None)))"
    unfolding getTaskListId_failed by (rule fst_catch_block, rule snd_catch_block)
  have 6: "fst (getTaskListId (Inr (Some []))) = None"
    "Err (''Error getting task lists: '' @ message (TypeError ''id''))
       \<in> set (snd (getTaskListId (Inr (Some []))))"
    unfolding getTaskListId_failed by (rule fst_catch_block, rule snd_catch_block)
  from 1 2 3 4 5 6 show ?thesis
    by blast
qed

theorem getTaskListId_result_witness:
  "find (\<lambda>l. tl_title l = ''@default'') example_task_lists =
     Some \<lparr>tl_title = ''@default'', tl_id = ''MDE2''\<rparr> \<and>
   fst (getTaskListId (Inr (Some example_task_lists))) = Some ''MDE2'' \<and>
   fst (getTaskListId (Inr (Some [\<lparr>tl_title = ''Homework'', tl_id = ''MDE1''\<rparr>,
                                   \<lparr>tl_title = ''School'', tl_id = ''MDE3''\<rparr>]))) = Some ''MDE1'' \<and>
   fst (getTaskListId (Inl (Error ''ENOENT''))) = None \<and>
   Err ''Error getting task lists: ENOENT'' \<in> set (snd (getTaskListId (Inl (Error ''ENOENT''))))"
proof -
  have f: "find (\<lambda>l. tl_title l = ''@default'') example_task_lists =
             Some \<lparr>tl_title = ''@default'', tl_id = ''MDE2''\<rparr>"
    by (simp add: example_task_lists_def)
  from getTaskListId_result [of example_task_lists "\<lparr>tl_title = ''@default'', tl_id = ''MDE2''\<rparr>"
         "\<lparr>tl_title = ''Homework'', tl_id = ''MDE1''\<rparr>" "[]" "Error ''ENOENT''"] f
  have a: "fst (getTaskListId (Inr (Some example_task_lists))) = Some ''MDE2''"
    and c: "fst (getTaskListId (Inl (Error ''ENOENT''))) = None"
    and d: "Err ''Error getting task lists: ENOENT'' \<in> set (snd (getTaskListId (Inl (Error ''ENOENT''))))"
    by simp_all
  from getTaskListId_result [of "[\<lparr>tl_title = ''Homework'', tl_id = ''MDE1''\<rparr>,
           \<lparr>tl_title = ''School'', tl_id = ''MDE3''\<rparr>]" "\<lparr>tl_title = ''School'', tl_id = ''MDE3''\<rparr>"
         "\<lparr>tl_title = ''Homework'', tl_id = ''MDE1''\<rparr>" "[\<lparr>tl_title = ''School'', tl_id = ''MDE3''\<rparr>]"]
  have b: "fst (getTaskListId (Inr (Some [\<lparr>tl_title = ''Homework'', tl_id = ''MDE1''\<rparr>,
                                   \<lparr>tl_title = ''School'', tl_id = ''MDE3''\<rparr>]))) = Some ''MDE1''"
    by simp
  from f a b c d show ?thesis by simp
qed

text \<open>
  C8.  In every timetable entry that \<open>getTimetable\<close> returns, from the cache or from
  the library's answer, in any state the module can reach, \<open>absent\<close> and
  \<open>cancelled\<close> are equal.  In the entries built from an answer both are the lesson's
  \<open>isCancelled\<close> flag, \<open>false\<close> when the flag is missing.
\<close>

theorem absent_equals_cancelled:
  assumes "reachable e st" and "getTimetable e st u s r = (Inr tt, st')"
  shows "(l \<in> set tt \<longrightarrow> t_absent l = t_cancelled l) \<and>
         (caches_timetable st u = None \<and> r = Inr raw \<and> i < length raw \<longrightarrow>
            length tt = length raw \<and>
            t_absent (tt ! i) = (l_isCancelled (raw ! i) = Some True) \<and>
            t_cancelled (tt ! i) = (l_isCancelled (raw ! i) = Some True))"
proof (cases "caches_timetable st u")
  case (Some cached)
  with assms(2) have "cached = tt" by (simp add: getTimetable_hit)
  with Some cached_timetable_flags [OF assms(1), of u tt l] show ?thesis by simp
next
  case None
  show ?thesis
  proof (cases r)
    case (Inl err)
    with None assms(2) show ?thesis by (simp add: getTimetable_rejected)
  next
    case (Inr raw')
    with None assms(2) have "tt = map (lesson_entry e) raw'"
      by (simp add: getTimetable_fulfilled)
    with Inr None show ?thesis
      by (auto simp: lesson_entry_flags)
  qed
qed

theorem absent_equals_cancelled_witness:
  "reachable example_env (initial_state 0) \<and>
   caches_timetable (initial_state 0) ''alice'' = None \<and>
   (0::nat) < length example_lessons \<and>
   l_isCancelled (example_lessons ! 0) = Some True \<and>
   lesson_entry example_env (example_lessons ! 0)
     \<in> set (projr (fst (getTimetable example_env (initial_state 0) ''alice''
                        (SessionHandle 1) (Inr example_lessons)))) \<and>
   t_absent (lesson_entry example_env (example_lessons ! 0)) \<and>
   t_cancelled (lesson_entry example_env (example_lessons ! 0)) \<and>
   t_absent (projr (fst (getTimetable example_env (initial_state 0) ''alice''
                           (SessionHandle 1) (Inr example_lessons))) ! 0) \<and>
   t_cancelled (projr (fst (getTimetable example_env (initial_state 0) ''alice''
                              (SessionHandle 1) (Inr example_lessons))) ! 0)"
proof -
  let ?call = "getTimetable example_env (initial_state 0) ''alice'' (SessionHandle 1)
                 (Inr example_lessons)"
  have r: "reachable example_env (initial_state 0)"
    by (rule reachable.loaded)
  have miss: "caches_timetable (initial_state 0) ''alice'' = None"
    by (simp add: initial_state_def)
  have tt: "projr (fst ?call) = map (lesson_entry example_env) example_lessons"
    by (simp add: getTimetable_fulfilled miss)
  have call: "?call = (Inr (projr (fst ?call)), snd ?call)"
    by (simp add: getTimetable_fulfilled miss)
  have i: "0 < length example_lessons" and c: "l_isCancelled (example_lessons ! 0) = Some True"
    by (simp_all add: example_lessons_def)
  have m: "lesson_entry example_env (example_lessons ! 0) \<in> set (projr (fst ?call))"
    using i unfolding tt by (simp add: example_lessons_def)
  from absent_equals_cancelled [OF r call, of "lesson_entry example_env (example_lessons ! 0)"
         example_lessons 0] miss i c m
  have "t_absent (lesson_entry example_env (example_lessons ! 0)) =
          t_cancelled (lesson_entry example_env (example_lessons ! 0))"
    and "t_absent (projr (fst ?call) ! 0)" and "t_cancelled (projr (fst ?call) ! 0)"
    by simp_all
  moreover have "t_cancelled (lesson_entry example_env (example_lessons ! 0))"
    using c by (simp add: lesson_entry_flags)
  ultimately show ?thesis
    using r miss i c m by simp
qed

text \<open>
  C9, as stated, fails for an assignment dated less than 3 hours before the end of the
  range of \<open>Date\<close>: the date whose time value is \<open>8640000000000000\<close> is a valid
  one, and the homework built from it is due at \<open>Invalid Date\<close>, not at the date whose
  time value is \<open>8640000010800000\<close>, which does not exist.
\<close>

theorem homework_due_counterexample:
  "caches_homeworks (initial_state 0) ''alice'' = None \<and>
   map w_date last_assignments = [8640000000000000] \<and>
   new_Date 8640000000000000 = Date 8640000000000000 \<and>
   map h_due (projr (fst (getHomeworks example_env (initial_state 0) ''alice''
      (SessionHandle 1) (Inr last_assignments)))) = [Invalid_Date] \<and>
   map h_due (projr (fst (getHomeworks example_env (initial_state 0) ''alice''
      (SessionHandle 1) (Inr last_assignments)))) \<noteq>
     map (\<lambda>v. Date (w_date v + 10800000)) last_assignments"
  by (simp add: getHomeworks_fulfilled initial_state_def last_assignments_def
        homework_entry_def new_Date_def Let_def homework_fields.defs Homework.defs)

text \<open>
  C9, amended.  For every assignment of a successful response that is fetched, the
  homework returned by \<open>getHomeworks\<close> at the same position is due at
  \<open>new Date(date + 10800000)\<close>, where \<open>date\<close> is the time value of the assignment's
  date in milliseconds.  When the assignment's date is a date at least 3 hours before
  the end of the range of \<open>Date\<close>, which is \<open>8640000000000000\<close> milliseconds on
  either side of the epoch, this is the date exactly 3 hours, that is 10800000
  milliseconds, after it; otherwise it is \<open>Invalid Date\<close>.
\<close>

theorem homework_due:
  assumes "caches_homeworks st u = None"
    and "getHomeworks e st u s (Inr raw) = (Inr hs, st')"
    and "i < length raw"
  shows "length hs = length raw \<and>
         h_due (hs ! i) = new_Date (w_date (raw ! i) + 10800000) \<and>
         (- 8640000000000000 \<le> w_date (raw ! i) \<and>
          w_date (raw ! i) + 10800000 \<le> 8640000000000000 \<longrightarrow>
            h_due (hs ! i) = Date (w_date (raw ! i) + 10800000)) \<and>
         (8640000000000000 < w_date (raw ! i) + 10800000 \<longrightarrow>
            h_due (hs ! i) = Invalid_Date)"
proof -
  from assms(1,2) have "hs = map (homework_entry e (clock st)) raw"
    by (simp add: getHomeworks_fulfilled)
  with assms(3)
  have "length hs = length raw"
    and due: "h_due (hs ! i) = new_Date (w_date (raw ! i) + 10800000)"
    by (simp_all add: homework_entry_def Let_def homework_fields.defs Homework.defs)
  then show ?thesis
    by (simp add: new_Date_def)
qed

theorem homework_due_witness:
  "caches_homeworks (initial_state 0) ''alice'' = None \<and>
   (0::nat) < length example_assignments \<and>
   w_date (example_assignments ! 0) = 1700000000000 \<and>
   - 8640000000000000 \<le> w_date (example_assignments ! 0) \<and>
   w_date (example_assignments ! 0) + 10800000 \<le> 8640000000000000 \<and>
   map h_due (projr (fst (getHomeworks example_env (initial_state 0) ''alice''
      (SessionHandle 1) (Inr example_assignments)))) = [Date 1700010800000]"
proof -
  let ?call = "getHomeworks example_env (initial_state 0) ''alice'' (SessionHandle 1)
                 (Inr example_assignments)"
  have miss: "caches_homeworks (initial_state 0) ''alice'' = None"
    by (simp add: initial_state_def)
  have call: "?call = (Inr (projr (fst ?call)), snd ?call)"
    by (simp add: getHomeworks_fulfilled miss)
  have i: "0 < length example_assignments"
    by (simp add: example_assignments_def)
  from homework_due [OF miss call i]
  have "length (projr (fst ?call)) = 1"
    and "h_due (projr (fst ?call) ! 0) = Date 1700010800000"
    by (simp_all add: example_assignments_def new_Date_def)
  moreover have "map h xs = [h (xs ! 0)]" if "length xs = 1"
    for h :: "Homework \<Rightarrow> date_object" and xs
    using that by (cases xs) simp_all
  ultimately show ?thesis
    using miss by (simp add: example_assignments_def)
qed

text \<open>
  C10.  The defaults of \<open>getGrades\<close> apply to falsy values: the grade returned for a
  mark whose coefficient is \<open>0\<close> has the coefficient \<open>1\<close>, for a mark whose scale is
  \<open>0\<close> the scale \<open>20\<close>, for a mark whose max is \<open>0\<close> the best \<open>20\<close>, and for a
  mark whose value is absent the value \<open>0\<close>.  The grade at position \<open>i\<close> of the
  result is the one of the \<open>i\<close>-th mark of the response.
\<close>

theorem falsy_defaults:
  assumes "caches_grades st u = None"
    and "getGrades e st u s (Inr raw) = (Inr gs, st')"
    and "i < length (marks_in_order raw)"
  shows "length gs = length (marks_in_order raw) \<and>
         (m_coefficient (snd (marks_in_order raw ! i)) = Some (Num 0) \<longrightarrow>
            g_coefficient (gs ! i) = Num 1) \<and>
         (m_scale (snd (marks_in_order raw ! i)) = Some (Num 0) \<longrightarrow>
            g_scale (gs ! i) = Num 20) \<and>
         (m_max (snd (marks_in_order raw ! i)) = Some (Num 0) \<longrightarrow>
            g_best (gs ! i) = Num 20) \<and>
         (m_value (snd (marks_in_order raw ! i)) = None \<longrightarrow>
            g_value (gs ! i) = Num 0)"
proof -
  from getGrades_reshaped [OF assms(1), of e s raw] assms(2)
  have gs: "gs = map (reshaped_grade e (clock st)) (marks_in_order raw)"
    by simp
  with assms(3) have "gs ! i = reshaped_grade e (clock st) (marks_in_order raw ! i)"
    by simp
  with gs show ?thesis
    by (simp add: reshaped_grade_def number_or_def Let_def)
qed

theorem falsy_defaults_witness:
  "caches_grades (initial_state 0) ''alice'' = None \<and>
   (0::nat) < length (marks_in_order example_gradebook) \<and>
   m_coefficient (snd (marks_in_order example_gradebook ! 0)) = Some (Num 0) \<and>
   m_scale (snd (marks_in_order example_gradebook ! 0)) = Some (Num 0) \<and>
   m_max (snd (marks_in_order example_gradebook ! 0)) = Some (Num 0) \<and>
   m_value (snd (marks_in_order example_gradebook ! 0)) = None \<and>
   map g_coefficient (projr (fst (getGrades example_env (initial_state 0) ''alice''
      (SessionHandle 1) (Inr example_gradebook)))) = [Num 1] \<and>
   map g_scale (projr (fst (getGrades example_env (initial_state 0) ''alice''
      (SessionHandle 1) (Inr example_gradebook)))) = [Num 20] \<and>
   map g_best (projr (fst (getGrades example_env (initial_state 0) ''alice''
      (SessionHandle 1) (Inr example_gradebook)))) = [Num 20] \<and>
   map g_value (projr (fst (getGrades example_env (initial_state 0) ''alice''
      (SessionHandle 1) (Inr example_gradebook)))) = [Num 0]"
proof -
  let ?call = "getGrades example_env (initial_state 0) ''alice'' (SessionHandle 1)
                 (Inr example_gradebook)"
  have miss: "caches_grades (initial_state 0) ''alice'' = None"
    by (simp add: initial_state_def)
  have marks: "marks_in_order example_gradebook =
      [(\<lparr>s_name = ''MATHEMATIQUES'', s_grades = Some [example_mark]\<rparr>, example_mark)]"
    by (simp add: marks_in_order_def example_gradebook_def)
  have call: "?call = (Inr (projr (fst ?call)), snd ?call)"
    by (simp add: getGrades_fulfilled miss)
  have i: "0 < length (marks_in_order example_gradebook)"
    by (simp add: marks)
  from falsy_defaults [OF miss call i]
  have "length (projr (fst ?call)) = 1"
    and "g_coefficient (projr (fst ?call) ! 0) = Num 1"
    and "g_scale (projr (fst ?call) ! 0) = Num 20"
    and "g_best (projr (fst ?call) ! 0) = Num 20"
    and "g_value (projr (fst ?call) ! 0) = Num 0"
    by (simp_all add: marks example_mark_def)
  moreover have "map h xs = [h (xs ! 0)]" if "length xs = 1" for h :: "Grade \<Rightarrow> number" and xs
    using that by (cases xs) simp_all
  ultimately show ?thesis
    using miss by (simp add: marks example_mark_def)
qed

end
